theory Spec2Isabelle
  imports Main "HOL-Library.Word" "HOL-Library.AList"
begin

section \<open>Exceptions\<close>

text \<open>
  Every exception of the Python sources is a value. \<open>MissingCredentials\<close>,
  \<open>AuthenticationError\<close> and \<open>NonStreamable\<close> are streamrip's own
  (\<open>streamrip/exceptions\<close>); \<open>WrongLicense\<close> and \<open>WrongGeolocation\<close> are raised by the
  deezer library; the others are Python built-ins. \<open>Exception msg\<close> is a bare
  \<open>raise Exception(msg)\<close>; \<open>LibraryError msg\<close> stands for any other exception that derives from
  \<open>Exception\<close> and comes out of a library call (a network failure, an API error).
\<close>

datatype exn =
    MissingCredentials
  | AuthenticationError
  | NonStreamable string
  | WrongLicense
  | WrongGeolocation
  | IndexError
  | KeyError string
  | TypeError
  | AttributeError
  | ValueError
  | Exception string
  | LibraryError string

section \<open>The rip state machine (\<open>src/media.py\<close>)\<close>

text \<open>
  \<open>Media\<close> is an abstract class with three abstract coroutines. An object of a
  subclass is modelled by its three phase bodies, each a function on the state the
  object works on that either returns the new state or raises.
\<close>

datatype phase = Preprocess | Download | Postprocess

record 'st media =
  preprocess :: "'st \<Rightarrow> exn + 'st"
  download :: "'st \<Rightarrow> exn + 'st"
  postprocess :: "'st \<Rightarrow> exn + 'st"

text \<open>
  \<open>await self.p()\<close> as a statement of a sequence: when the statements before it have
  raised, it is not reached; otherwise the call is recorded in the list of invoked phases
  and the body runs on the current state.
\<close>

definition await_phase ::
  "phase \<Rightarrow> ('st \<Rightarrow> exn + 'st) \<Rightarrow> phase list \<times> (exn + 'st) \<Rightarrow> phase list \<times> (exn + 'st)"
where
  "await_phase p body r =
     (case r of
        (tr, Inl e) \<Rightarrow> (tr, Inl e)
      | (tr, Inr s) \<Rightarrow> (tr @ [p], body s))"

text \<open>
  \<^verbatim>\<open>
  async def rip(self):
      await self.preprocess()
      await self.download()
      await self.postprocess()
  \<close>
\<close>

definition rip :: "'st media \<Rightarrow> 'st \<Rightarrow> phase list \<times> (exn + 'st)" where
  "rip m s =
     await_phase Postprocess (postprocess m)
       (await_phase Download (download m)
          (await_phase Preprocess (preprocess m) ([], Inr s)))"

text \<open>
  The bodies of the abstract methods of \<open>Media\<close> itself are \<open>raise NotImplemented\<close>.
  \<open>NotImplemented\<close> is not an exception class, so the statement raises \<open>TypeError\<close>.
  \<open>base_media\<close> is a subclass whose phases delegate to these bodies.
\<close>

definition base_media :: "'st media" where
  "base_media =
     \<lparr>preprocess = (\<lambda>s. Inl TypeError),
      download = (\<lambda>s. Inl TypeError),
      postprocess = (\<lambda>s. Inl TypeError)\<rparr>"

text \<open>A media object all of whose phases return; each phase counts one step.\<close>

definition counting_media :: "nat media" where
  "counting_media =
     \<lparr>preprocess = (\<lambda>s. Inr (Suc s)),
      download = (\<lambda>s. Inr (Suc s)),
      postprocess = (\<lambda>s. Inr (Suc s))\<rparr>"

text \<open>A media object whose download raises after a successful preprocess.\<close>

definition failing_download_media :: "nat media" where
  "failing_download_media =
     \<lparr>preprocess = (\<lambda>s. Inr (Suc s)),
      download = (\<lambda>s. Inl (LibraryError ''connection reset'')),
      postprocess = (\<lambda>s. Inr (Suc s))\<rparr>"

section \<open>Python values and built-in operations\<close>

text \<open>
  The deezer library hands the client decoded JSON: \<open>None\<close>, booleans, integers,
  strings, lists and dictionaries. A dictionary is an association list in insertion
  order; a lookup reads the first entry of a key. A \<open>str\<close> is a \<open>string\<close>: its
  characters are the bytes of its UTF-8 encoding, which for the ASCII text the provider
  sends (hexadecimal hashes, decimal identifiers, format names) are its code points.
\<close>

datatype json =
    JNone
  | JBool bool
  | JInt int
  | JStr string
  | JList "json list"
  | JDict "(string \<times> json) list"

text \<open>Sequencing of statements that may raise: the first exception ends the sequence.\<close>

definition and_then :: "exn + 'a \<Rightarrow> ('a \<Rightarrow> exn + 'b) \<Rightarrow> exn + 'b" where
  "and_then r f = (case r of Inl e \<Rightarrow> Inl e | Inr x \<Rightarrow> f x)"

text \<open>\<open>d[k]\<close>: \<open>KeyError\<close> on a dictionary without the key, \<open>TypeError\<close>
  on a value that is not a dictionary (a string key indexes nothing else).\<close>

definition getitem :: "json \<Rightarrow> string \<Rightarrow> exn + json" where
  "getitem d k =
     (case d of
        JDict kvs \<Rightarrow> (case map_of kvs k of None \<Rightarrow> Inl (KeyError k) | Some v \<Rightarrow> Inr v)
      | _ \<Rightarrow> Inl TypeError)"

text \<open>\<open>d[k] = v\<close>: an existing key keeps its place, a new key goes to the end.\<close>

definition setitem :: "json \<Rightarrow> string \<Rightarrow> json \<Rightarrow> exn + json" where
  "setitem d k v =
     (case d of
        JDict kvs \<Rightarrow> Inr (JDict (AList.update k v kvs))
      | _ \<Rightarrow> Inl TypeError)"

text \<open>\<open>d.get(k, default)\<close>: only a dictionary has the method.\<close>

definition dict_get :: "json \<Rightarrow> string \<Rightarrow> json \<Rightarrow> exn + json" where
  "dict_get d k dflt =
     (case d of
        JDict kvs \<Rightarrow> Inr (case map_of kvs k of None \<Rightarrow> dflt | Some v \<Rightarrow> v)
      | _ \<Rightarrow> Inl AttributeError)"

text \<open>\<open>len(v)\<close>.\<close>

definition py_len :: "json \<Rightarrow> exn + nat" where
  "py_len v =
     (case v of
        JList xs \<Rightarrow> Inr (length xs)
      | JStr s \<Rightarrow> Inr (length s)
      | JDict kvs \<Rightarrow> Inr (length (remdups (map fst kvs)))
      | _ \<Rightarrow> Inl TypeError)"

text \<open>\<open>xs[i]\<close> on a list of length \<open>n\<close>: the indices \<open>0\<close> to \<open>n - 1\<close> count
  from the front, the indices \<open>-n\<close> to \<open>-1\<close> from the end, and every other index
  raises \<open>IndexError\<close>.\<close>

definition py_index :: "'a list \<Rightarrow> int \<Rightarrow> exn + 'a" where
  "py_index xs i =
     (if 0 \<le> i \<and> i < int (length xs) then Inr (xs ! nat i)
      else if - int (length xs) \<le> i \<and> i < 0 then Inr (xs ! nat (int (length xs) + i))
      else Inl IndexError)"

text \<open>A list comprehension whose element expression may raise: the elements are
  evaluated from left to right and the first exception ends the comprehension.\<close>

fun collect :: "(exn + 'a) list \<Rightarrow> exn + 'a list" where
  "collect [] = Inr []"
| "collect (r # rs) =
     (case r of
        Inl e \<Rightarrow> Inl e
      | Inr x \<Rightarrow> (case collect rs of Inl e \<Rightarrow> Inl e | Inr xs \<Rightarrow> Inr (x # xs)))"

text \<open>\<open>str(n)\<close> of an integer: its decimal digits, with a sign when negative.\<close>

fun digits10 :: "nat \<Rightarrow> string" where
  "digits10 n =
     (if n < 10 then [''0123456789'' ! n]
      else digits10 (n div 10) @ [''0123456789'' ! (n mod 10)])"

definition str_int :: "int \<Rightarrow> string" where
  "str_int i = (if i < 0 then CHR ''-'' # digits10 (nat (- i)) else digits10 (nat i))"

section \<open>Bytes, hashing and the block cipher\<close>

type_synonym byte = "8 word"

text \<open>\<open>s.encode()\<close> and \<open>bs.decode("utf-8")\<close> on ASCII text.\<close>

definition encode :: "string \<Rightarrow> byte list" where
  "encode s = map (\<lambda>c. of_nat (of_char c)) s"

definition decode :: "byte list \<Rightarrow> string" where
  "decode bs = map (\<lambda>b. char_of (unat b)) bs"

text \<open>\<open>sep.join(parts)\<close> on bytes.\<close>

fun bytes_join :: "byte list \<Rightarrow> byte list list \<Rightarrow> byte list" where
  "bytes_join sep [] = []"
| "bytes_join sep [p] = p"
| "bytes_join sep (p # q # ps) = p @ sep @ bytes_join sep (q # ps)"

text \<open>\<open>binascii.hexlify\<close>: two lower-case hexadecimal digits for each byte.\<close>

definition hexlify :: "byte list \<Rightarrow> byte list" where
  "hexlify bs =
     concat (map (\<lambda>b. encode [''0123456789abcdef'' ! (unat b div 16),
                               ''0123456789abcdef'' ! (unat b mod 16)]) bs)"

text \<open>
  The libraries the code calls are not part of the repository and are parameters of the
  model: \<open>hashlib.md5(bs).hexdigest()\<close>, the AES block encryption of one 16-byte block
  under a key, and \<open>str(v)\<close> for a list or a dictionary.
\<close>

record py_lib =
  md5_hexdigest :: "byte list \<Rightarrow> string"
  aes_block :: "byte list \<Rightarrow> byte list \<Rightarrow> byte list"
  str_container :: "json \<Rightarrow> string"

text \<open>\<open>str(v)\<close> of a JSON value.\<close>

definition py_str :: "py_lib \<Rightarrow> json \<Rightarrow> string" where
  "py_str lib v =
     (case v of
        JStr s \<Rightarrow> s
      | JInt i \<Rightarrow> str_int i
      | JNone \<Rightarrow> ''None''
      | JBool b \<Rightarrow> (if b then ''True'' else ''False'')
      | _ \<Rightarrow> str_container lib v)"

text \<open>The blocks of a buffer, 16 bytes each (the last one shorter when the length is
  not a multiple of 16).\<close>

function blocks16 :: "'a list \<Rightarrow> 'a list list" where
  "blocks16 xs = (if xs = [] then [] else take 16 xs # blocks16 (drop 16 xs))"
  by pat_completeness auto
termination
  by (relation "measure length") auto

text \<open>
  \<open>AES.new(key, AES.MODE_ECB).encrypt(data)\<close>: the constructor refuses a key that is
  not 16, 24 or 32 bytes long, \<open>encrypt\<close> refuses data whose length is not a multiple
  of the block size (both with \<open>ValueError\<close>), and in ECB mode every block is encrypted
  on its own under the key.
\<close>

definition aes_ecb_encrypt :: "py_lib \<Rightarrow> byte list \<Rightarrow> byte list \<Rightarrow> exn + byte list" where
  "aes_ecb_encrypt lib key data =
     (if length key \<notin> {16, 24, 32} then Inl ValueError
      else if length data mod 16 \<noteq> 0 then Inl ValueError
      else Inr (concat (map (aes_block lib key) (blocks16 data))))"

section \<open>The Deezer client (\<open>streamrip/client/deezer.py\<close>)\<close>

text \<open>
  \<open>DeezerConfig\<close> of \<open>config.py\<close>, and the attributes of a \<open>DeezerClient\<close> that its
  methods read or write. \<open>session\<close> has no value before \<open>login\<close> has assigned it.
\<close>

type_synonym session = nat

record deezer_config =
  arl :: string
  quality :: int
  use_deezloader :: bool
  deezloader_warnings :: bool

record client =
  logged_in :: bool
  session :: "session option"
  config :: deezer_config

text \<open>
  What the client does not own: the \<open>deezer.Deezer()\<close> object it calls (each call
  returns or raises), the session factory of the base class \<open>Client\<close>, and, for two
  requests awaited together, which of two failures arrives first.
\<close>

record deezer_env =
  get_session :: "exn + session"
  login_via_arl :: "string \<Rightarrow> exn + bool"
  api_get_track :: "json \<Rightarrow> exn + json"
  api_get_album :: "json \<Rightarrow> exn + json"
  api_get_album_tracks :: "json \<Rightarrow> exn + json"
  api_get_playlist :: "json \<Rightarrow> exn + json"
  api_get_playlist_tracks :: "json \<Rightarrow> exn + json"
  api_get_artist :: "json \<Rightarrow> exn + json"
  api_get_artist_albums :: "json \<Rightarrow> exn + json"
  gw_get_track :: "string \<Rightarrow> exn + json"
  get_track_url :: "json \<Rightarrow> string \<Rightarrow> exn + string option"
  first_raises_first :: bool

text \<open>
  \<^verbatim>\<open>
  async def login(self):
      self.session = await self.get_session()
      arl = self.config.arl
      if not arl:
          raise MissingCredentials
      success = self.client.login_via_arl(arl)
      if not success:
          raise AuthenticationError
      self.logged_in = True
  \<close>
  The method returns nothing and changes the client; an assignment made before a
  \<open>raise\<close> stays. The result is the outcome together with the client afterwards.
\<close>

definition login :: "deezer_env \<Rightarrow> client \<Rightarrow> (exn + unit) \<times> client" where
  "login env self =
     (case get_session env of
        Inl e \<Rightarrow> (Inl e, self)
      | Inr sess \<Rightarrow>
          (let self1 = self\<lparr>session := Some sess\<rparr>;
               arl' = arl (config self1)
           in if arl' = [] then (Inl MissingCredentials, self1)
              else (case login_via_arl env arl' of
                      Inl e \<Rightarrow> (Inl e, self1)
                    | Inr success \<Rightarrow>
                        if \<not> success then (Inl AuthenticationError, self1)
                        else (Inr (), self1\<lparr>logged_in := True\<rparr>))))"

text \<open>
  \<open>await asyncio.gather(a, b)\<close> of two requests: both results when both return;
  otherwise the first exception that is raised. When both raise, which one is first is
  decided by the threads, not by the program.
\<close>

definition gather2 :: "bool \<Rightarrow> exn + 'a \<Rightarrow> exn + 'b \<Rightarrow> exn + ('a \<times> 'b)" where
  "gather2 first_first r1 r2 =
     (case r1 of
        Inr a \<Rightarrow> (case r2 of Inr b \<Rightarrow> Inr (a, b) | Inl e2 \<Rightarrow> Inl e2)
      | Inl e1 \<Rightarrow> (case r2 of Inr b \<Rightarrow> Inl e1 | Inl e2 \<Rightarrow> Inl (if first_first then e1 else e2)))"

text \<open>
  The statements shared by \<open>get_track\<close>, \<open>get_album\<close> and \<open>get_playlist\<close>:
  \<^verbatim>\<open>
  metadata["tracks"] = tracks["data"]
  metadata["track_total"] = len(tracks["data"])
  \<close>
\<close>

definition attach_tracks :: "json \<Rightarrow> json \<Rightarrow> exn + json" where
  "attach_tracks metadata tracks =
     and_then (getitem tracks ''data'') (\<lambda>data.
     and_then (setitem metadata ''tracks'' data) (\<lambda>metadata1.
     and_then (getitem tracks ''data'') (\<lambda>data'.
     and_then (py_len data') (\<lambda>n.
     setitem metadata1 ''track_total'' (JInt (int n))))))"

text \<open>
  \<^verbatim>\<open>
  async def get_track(self, item_id: str) -> dict:
      item = await asyncio.to_thread(self.client.api.get_track, item_id)
      album_id = item["album"]["id"]
      try:
          album_metadata, album_tracks = await asyncio.gather(
              asyncio.to_thread(self.client.api.get_album, album_id),
              asyncio.to_thread(self.client.api.get_album_tracks, album_id),
          )
      except Exception as e:
          logger.error("Got exception from deezer API %s", e)
          return item
      album_metadata["tracks"] = album_tracks["data"]
      album_metadata["track_total"] = len(album_tracks["data"])
      item["album"] = album_metadata
      return item
  \<close>
  Every value of \<open>exn\<close> is an instance of \<open>Exception\<close>, so the handler catches it.
\<close>

definition get_track :: "deezer_env \<Rightarrow> client \<Rightarrow> string \<Rightarrow> exn + json" where
  "get_track env self item_id =
     and_then (api_get_track env (JStr item_id)) (\<lambda>item.
     and_then (and_then (getitem item ''album'') (\<lambda>album. getitem album ''id'')) (\<lambda>album_id.
       case gather2 (first_raises_first env)
              (api_get_album env album_id) (api_get_album_tracks env album_id) of
         Inl e \<Rightarrow> Inr item
       | Inr (album_metadata, album_tracks) \<Rightarrow>
           and_then (attach_tracks album_metadata album_tracks) (\<lambda>album_metadata'.
           setitem item ''album'' album_metadata')))"

text \<open>
  \<^verbatim>\<open>
  async def get_album(self, item_id: str) -> dict:
      album_metadata, album_tracks = await asyncio.gather(
          asyncio.to_thread(self.client.api.get_album, item_id),
          asyncio.to_thread(self.client.api.get_album_tracks, item_id),
      )
      album_metadata["tracks"] = album_tracks["data"]
      album_metadata["track_total"] = len(album_tracks["data"])
      return album_metadata
  \<close>
\<close>

definition get_album :: "deezer_env \<Rightarrow> client \<Rightarrow> string \<Rightarrow> exn + json" where
  "get_album env self item_id =
     and_then (gather2 (first_raises_first env)
                 (api_get_album env (JStr item_id)) (api_get_album_tracks env (JStr item_id)))
       (\<lambda>(album_metadata, album_tracks). attach_tracks album_metadata album_tracks)"

definition get_playlist :: "deezer_env \<Rightarrow> client \<Rightarrow> string \<Rightarrow> exn + json" where
  "get_playlist env self item_id =
     and_then (gather2 (first_raises_first env)
                 (api_get_playlist env (JStr item_id)) (api_get_playlist_tracks env (JStr item_id)))
       (\<lambda>(pl_metadata, pl_tracks). attach_tracks pl_metadata pl_tracks)"

text \<open>
  \<^verbatim>\<open>
  async def get_artist(self, item_id: str) -> dict:
      artist, albums = await asyncio.gather(
          asyncio.to_thread(self.client.api.get_artist, item_id),
          asyncio.to_thread(self.client.api.get_artist_albums, item_id),
      )
      artist["albums"] = albums["data"]
      return artist
  \<close>
\<close>

definition get_artist :: "deezer_env \<Rightarrow> client \<Rightarrow> string \<Rightarrow> exn + json" where
  "get_artist env self item_id =
     and_then (gather2 (first_raises_first env)
                 (api_get_artist env (JStr item_id)) (api_get_artist_albums env (JStr item_id)))
       (\<lambda>(artist, albums).
          and_then (getitem albums ''data'') (\<lambda>data. setitem artist ''albums'' data))"

text \<open>
  \<^verbatim>\<open>
  async def get_metadata(self, item_id: str, media_type: str) -> dict:
      if media_type == "track":
          return await self.get_track(item_id)
      elif media_type == "album":
          return await self.get_album(item_id)
      elif media_type == "playlist":
          return await self.get_playlist(item_id)
      elif media_type == "artist":
          return await self.get_artist(item_id)
      else:
          raise Exception(f"Media type {media_type} not available on deezer")
  \<close>
\<close>

definition get_metadata :: "deezer_env \<Rightarrow> client \<Rightarrow> string \<Rightarrow> string \<Rightarrow> exn + json" where
  "get_metadata env self item_id media_type =
     (if media_type = ''track'' then get_track env self item_id
      else if media_type = ''album'' then get_album env self item_id
      else if media_type = ''playlist'' then get_playlist env self item_id
      else if media_type = ''artist'' then get_artist env self item_id
      else Inl (Exception (''Media type '' @ media_type @ '' not available on deezer'')))"

subsection \<open>The derived URL\<close>

text \<open>
  \<^verbatim>\<open>
  def _get_encrypted_file_url(self, meta_id: str, track_hash: str, media_version: str):
      format_number = 1
      url_bytes = b"\xa4".join(
          (track_hash.encode(), str(format_number).encode(),
           str(meta_id).encode(), str(media_version).encode()))
      url_hash = hashlib.md5(url_bytes).hexdigest()
      info_bytes = bytearray(url_hash.encode())
      info_bytes.extend(b"\xa4")
      info_bytes.extend(url_bytes)
      info_bytes.extend(b"\xa4")
      # Pad the bytes so that len(info_bytes) % 16 == 0
      padding_len = 16 - (len(info_bytes) % 16)
      info_bytes.extend(b"." * padding_len)
      path = binascii.hexlify(
          AES.new(b"jo6aey6haid2Teih", AES.MODE_ECB).encrypt(info_bytes)).decode("utf-8")
      return f"https://e-cdns-proxy-{track_hash[0]}.dzcdn.net/mobile/1/{path}"
  \<close>
  The steps of the method are definitions of their own, so that each can be stated
  about; \<open>get_encrypted_file_url\<close> is the method (a name cannot begin with an
  underscore). \<open>str\<close> of a \<open>str\<close> is the string itself.
\<close>

definition format_number :: int where
  "format_number = 1"

definition url_bytes :: "string \<Rightarrow> string \<Rightarrow> string \<Rightarrow> byte list" where
  "url_bytes meta_id track_hash media_version =
     bytes_join [0xA4]
       [encode track_hash, encode (str_int format_number), encode meta_id, encode media_version]"

definition info_bytes :: "py_lib \<Rightarrow> string \<Rightarrow> string \<Rightarrow> string \<Rightarrow> byte list" where
  "info_bytes lib meta_id track_hash media_version =
     (let ub = url_bytes meta_id track_hash media_version;
          url_hash = md5_hexdigest lib ub
      in encode url_hash @ [0xA4] @ ub @ [0xA4])"

definition padding_len :: "byte list \<Rightarrow> nat" where
  "padding_len bs = 16 - (length bs mod 16)"

definition padded_info_bytes :: "py_lib \<Rightarrow> string \<Rightarrow> string \<Rightarrow> string \<Rightarrow> byte list" where
  "padded_info_bytes lib meta_id track_hash media_version =
     (let ib = info_bytes lib meta_id track_hash media_version
      in ib @ replicate (padding_len ib) 0x2E)"

definition aes_key :: "byte list" where
  "aes_key = encode ''jo6aey6haid2Teih''"

text \<open>The variable \<open>path\<close> of the method: the encrypted buffer in hexadecimal.\<close>

definition encrypted_path :: "py_lib \<Rightarrow> string \<Rightarrow> string \<Rightarrow> string \<Rightarrow> exn + string" where
  "encrypted_path lib meta_id track_hash media_version =
     and_then (aes_ecb_encrypt lib aes_key (padded_info_bytes lib meta_id track_hash media_version))
       (\<lambda>encrypted. Inr (decode (hexlify encrypted)))"

definition get_encrypted_file_url ::
  "py_lib \<Rightarrow> client \<Rightarrow> string \<Rightarrow> string \<Rightarrow> string \<Rightarrow> exn + string"
where
  "get_encrypted_file_url lib self meta_id track_hash media_version =
     and_then (encrypted_path lib meta_id track_hash media_version) (\<lambda>path.
       case track_hash of
         [] \<Rightarrow> Inl IndexError
       | c # _ \<Rightarrow> Inr (''https://e-cdns-proxy-'' @ [c] @ ''.dzcdn.net/mobile/1/'' @ path))"

subsection \<open>Negotiating a downloadable\<close>

text \<open>
  \<open>dl_info\<close> is the dictionary the method fills, with its five keys; the
  \<open>DeezerDownloadable\<close> is the pair the constructor is called with.
\<close>

record dl_info =
  dl_quality :: int
  dl_id :: string
  dl_fallback_id :: json
  dl_quality_to_size :: "json list"
  dl_url :: string

datatype downloadable = DeezerDownloadable session dl_info

definition quality_map :: "(int \<times> string) list" where
  "quality_map = [(9, ''MP3_128''), (3, ''MP3_320''), (1, ''FLAC'')]"

definition wrong_license_message :: string where
  "wrong_license_message =
     ''The requested quality is not available with your subscription. '' @
     ''Deezer HiFi is required for quality 2. Otherwise, the maximum '' @
     ''quality allowed is 1.''"

definition wrong_geolocation_message :: string where
  "wrong_geolocation_message =
     ''The requested track is not available. This may be due to your country/location.''"

text \<open>
  \<^verbatim>\<open>
  try:
      url = self.client.get_track_url(token, format_str)
  except deezer.WrongLicense:
      raise NonStreamable("The requested quality is not available ...")
  except deezer.WrongGeolocation:
      raise NonStreamable("The requested track is not available. ...")
  \<close>
\<close>

definition fetch_url :: "deezer_env \<Rightarrow> json \<Rightarrow> string \<Rightarrow> exn + string option" where
  "fetch_url env token format_str =
     (case get_track_url env token format_str of
        Inl WrongLicense \<Rightarrow> Inl (NonStreamable wrong_license_message)
      | Inl WrongGeolocation \<Rightarrow> Inl (NonStreamable wrong_geolocation_message)
      | Inl e \<Rightarrow> Inl e
      | Inr url \<Rightarrow> Inr url)"

text \<open>
  \<^verbatim>\<open>
  if url is None:
      url = self._get_encrypted_file_url(
          item_id, track_info["MD5_ORIGIN"], track_info["MEDIA_VERSION"])
  \<close>
  The two lookups are evaluated before the call. In the callee a track hash that is not
  a \<open>str\<close> has no \<open>encode\<close>, which is the first thing asked of it; the media version
  goes through \<open>str\<close>.
\<close>

definition fallback_url :: "py_lib \<Rightarrow> client \<Rightarrow> string \<Rightarrow> json \<Rightarrow> exn + string" where
  "fallback_url lib self item_id track_info =
     and_then (getitem track_info ''MD5_ORIGIN'') (\<lambda>md5_origin.
     and_then (getitem track_info ''MEDIA_VERSION'') (\<lambda>media_version.
       case md5_origin of
         JStr track_hash \<Rightarrow>
           get_encrypted_file_url lib self item_id track_hash (py_str lib media_version)
       | _ \<Rightarrow> Inl AttributeError))"

text \<open>
  \<^verbatim>\<open>
  async def get_downloadable(self, item_id: str, quality: int = 2) -> DeezerDownloadable:
      dl_info: dict = {"quality": quality, "id": item_id}
      track_info = self.client.gw.get_track(item_id)
      dl_info["fallback_id"] = track_info.get("FALLBACK", {}).get("SNG_ID")
      quality_map = [(9, "MP3_128"), (3, "MP3_320"), (1, "FLAC")]
      _, format_str = quality_map[quality]
      dl_info["quality_to_size"] = [
          track_info[f"FILESIZE_{format}"] for _, format in quality_map]
      token = track_info["TRACK_TOKEN"]
      try: ...                      # fetch_url
      if url is None: ...           # fallback_url
      dl_info["url"] = url
      return DeezerDownloadable(self.session, dl_info)
  \<close>
  \<open>dl_request\<close> is the method up to the assignment of \<open>token\<close>: it returns what
  the rest of the method reads, namely \<open>track_info\<close>, the fallback id, \<open>format_str\<close>,
  the sizes and the token.
\<close>

definition dl_request ::
  "deezer_env \<Rightarrow> string \<Rightarrow> int \<Rightarrow> exn + (json \<times> json \<times> string \<times> json list \<times> json)"
where
  "dl_request env item_id quality' =
     and_then (gw_get_track env item_id) (\<lambda>track_info.
     and_then (and_then (dict_get track_info ''FALLBACK'' (JDict []))
                 (\<lambda>fallback. dict_get fallback ''SNG_ID'' JNone)) (\<lambda>fallback_id.
     and_then (py_index quality_map quality') (\<lambda>(_, format_str).
     and_then (collect (map (\<lambda>(_, format). getitem track_info (''FILESIZE_'' @ format))
                          quality_map)) (\<lambda>quality_to_size.
     and_then (getitem track_info ''TRACK_TOKEN'') (\<lambda>token.
       Inr (track_info, fallback_id, format_str, quality_to_size, token))))))"

definition get_downloadable ::
  "py_lib \<Rightarrow> deezer_env \<Rightarrow> client \<Rightarrow> string \<Rightarrow> int \<Rightarrow> exn + downloadable"
where
  "get_downloadable lib env self item_id quality' =
     and_then (dl_request env item_id quality')
       (\<lambda>(track_info, fallback_id, format_str, quality_to_size, token).
     and_then (fetch_url env token format_str) (\<lambda>url.
     and_then (case url of
                 None \<Rightarrow> fallback_url lib self item_id track_info
               | Some u \<Rightarrow> Inr u) (\<lambda>url'.
       case session self of
         None \<Rightarrow> Inl AttributeError
       | Some sess \<Rightarrow>
           Inr (DeezerDownloadable sess
                  \<lparr>dl_quality = quality', dl_id = item_id, dl_fallback_id = fallback_id,
                   dl_quality_to_size = quality_to_size, dl_url = url'\<rparr>))))"

section \<open>Resolving a label (\<open>streamrip/media/label.py\<close>)\<close>

text \<open>
  A \<open>PendingLabel\<close> holds an id, a \<open>Client\<close>, the configuration and the database.
  Of the abstract \<open>Client\<close> the method uses \<open>source\<close> and \<open>get_metadata\<close>. The
  configuration is only handed on and stays a type parameter.
\<close>

record source_client =
  source :: string
  client_get_metadata :: "string \<Rightarrow> string \<Rightarrow> exn + json"

text \<open>
  Modelled from the spec: the class \<open>Database\<close> is not among the sources. The spec's
  ledger is a store of records \<open>{id, outcome}\<close> with \<open>outcome\<close> one of
  \<open>succeeded\<close> and \<open>failed\<close>, asked \<open>contains(id)\<close> for a \<open>succeeded\<close> record.
\<close>

datatype outcome = Succeeded | Failed

type_synonym database = "(string \<times> outcome) list"


text \<open>
  \<open>LabelMetadata\<close> (its \<open>name\<close> and what \<open>album_ids()\<close> returns),
  \<open>PendingAlbum\<close> and \<open>Label\<close> as the method uses them: the last two are built from
  their constructor arguments. \<open>LabelMetadata.from_resp\<close> is not among the sources and
  is a parameter of \<open>resolve\<close>.
\<close>

record label_metadata =
  meta_name :: string
  meta_album_ids :: "string list"

record 'cfg pending_album =
  album_id :: string
  album_client :: source_client
  album_config :: 'cfg
  album_db :: database

record 'cfg pending_label =
  label_id :: string
  label_client :: source_client
  label_config :: 'cfg
  label_db :: database

datatype 'cfg label = Label string "'cfg pending_album list" source_client 'cfg

text \<open>What a run can observe of a resolution: the requests sent to the source client and
  the questions put to the ledger.\<close>

datatype event = GetMetadata string string | LedgerContains string

definition await_get_metadata ::
  "source_client \<Rightarrow> string \<Rightarrow> string \<Rightarrow> event list \<times> (exn + json)"
where
  "await_get_metadata c item_id media_type =
     ([GetMetadata item_id media_type], client_get_metadata c item_id media_type)"

text \<open>
  \<^verbatim>\<open>
  async def resolve(self) -> Label:
      resp = await self.client.get_metadata(self.id, "label")
      meta = LabelMetadata.from_resp(resp, self.client.source)
      albums = [
          PendingAlbum(album_id, self.client, self.config, self.db)
          for album_id in meta.album_ids()
      ]
      return Label(meta.name, albums, self.client, self.config)
  \<close>
\<close>

definition resolve ::
  "(json \<Rightarrow> string \<Rightarrow> exn + label_metadata) \<Rightarrow> 'cfg pending_label \<Rightarrow>
     event list \<times> (exn + 'cfg label)"
where
  "resolve from_resp self =
     (case await_get_metadata (label_client self) (label_id self) ''label'' of
        (events, r) \<Rightarrow>
          (events,
           and_then r (\<lambda>resp.
           and_then (from_resp resp (source (label_client self))) (\<lambda>meta.
             let albums =
                   map (\<lambda>a. \<lparr>album_id = a, album_client = label_client self,
                               album_config = label_config self, album_db = label_db self\<rparr>)
                     (meta_album_ids meta)
             in Inr (Label (meta_name meta) albums (label_client self) (label_config self))))))"

text \<open>A \<open>DeezerClient\<close> seen as a \<open>Client\<close>.\<close>

definition deezer_client :: "deezer_env \<Rightarrow> client \<Rightarrow> source_client" where
  "deezer_client env self = \<lparr>source = ''deezer'', client_get_metadata = get_metadata env self\<rparr>"

section \<open>The derivation in the words of the specification\<close>

text \<open>
  The specification describes the fallback as: join the four fields track hash, format
  code, id and version with the separator \<open>0xA4\<close>; take the MD5 hex digest of the
  joined bytes; put the digest in front and a separator behind; pad with zero bytes up
  to the 16-byte block size; encrypt with AES in ECB mode under the fixed key. The
  result is the resource path, in hexadecimal as the code writes it.
\<close>

definition spec_zero_pad :: "byte list \<Rightarrow> byte list" where
  "spec_zero_pad bs = bs @ replicate ((16 - length bs mod 16) mod 16) 0x00"

definition spec_resource_path :: "py_lib \<Rightarrow> string \<Rightarrow> int \<Rightarrow> string \<Rightarrow> string \<Rightarrow> exn + string" where
  "spec_resource_path lib track_hash format_code item_id version =
     (let joined = bytes_join [0xA4]
                     [encode track_hash, encode (str_int format_code), encode item_id, encode version];
          digest = md5_hexdigest lib joined;
          buffer = spec_zero_pad (encode digest @ [0xA4] @ joined @ [0xA4])
      in and_then (aes_ecb_encrypt lib aes_key buffer) (\<lambda>encrypted.
           Inr (decode (hexlify encrypted))))"

section \<open>Test vectors and example objects\<close>

text \<open>
  The values of MD5 and of AES-128 under the client's key at the arguments the examples
  need: the MD5 hex digests of the joined fields of three inputs, and the encryption of
  the 16-byte blocks of their padded buffers, for the first input also of the buffer
  padded with zeros. \<open>vector_lib\<close> answers from these tables; at any other argument
  it returns a filler (a digest of zeros, the block itself), which no example reads.
\<close>

definition md5_vectors :: "(byte list \<times> string) list" where
  "md5_vectors =
     [([0x35, 0x31, 0x61, 0x66, 0x63, 0x64, 0x65, 0x39, 0x66, 0x35, 0x36, 0x61, 0x31, 0x33, 0x32, 0x30,
        0x39, 0x36, 0x63, 0x30, 0x34, 0x39, 0x36, 0x63, 0x63, 0x39, 0x35, 0x65, 0x62, 0x32, 0x34, 0x62,
        0xA4, 0x31, 0xA4, 0x33, 0x31, 0x33, 0x35, 0x35, 0x35, 0x36, 0xA4, 0x34],
       ''99b82eeceeedd50b8331137f02ecfa96''),
      ([0x35, 0x31, 0x61, 0x66, 0x63, 0x64, 0x65, 0x39, 0x66, 0x35, 0x36, 0x61, 0x31, 0x33, 0x32, 0x30,
        0x39, 0x36, 0x63, 0x30, 0x34, 0x39, 0x36, 0x63, 0x63, 0x39, 0x35, 0x65, 0x62, 0x32, 0x34, 0x62,
        0xA4, 0x31, 0xA4, 0x31, 0x32, 0x33, 0x34, 0x35, 0x36, 0x37, 0x38, 0x39, 0xA4, 0x34],
       ''cc034e9faecac407c5e1fb335daa8e18''),
      ([0xA4, 0x31, 0xA4, 0x33, 0x31, 0x33, 0x35, 0x35, 0x35, 0x36, 0xA4, 0x34],
       ''f76736c0ab442b37391eb29fad0a61c8'')]"

definition aes_vectors :: "(byte list \<times> byte list) list" where
  "aes_vectors =
     [([0x39, 0x39, 0x62, 0x38, 0x32, 0x65, 0x65, 0x63, 0x65, 0x65, 0x65, 0x64, 0x64, 0x35, 0x30, 0x62],
       [0xF3, 0xB9, 0x9B, 0x9F, 0xF0, 0x09, 0xE3, 0xCB, 0x4C, 0xC1, 0x6F, 0x2F, 0xF1, 0x9F, 0xCC, 0xB9]),
      ([0x38, 0x33, 0x33, 0x31, 0x31, 0x33, 0x37, 0x66, 0x30, 0x32, 0x65, 0x63, 0x66, 0x61, 0x39, 0x36],
       [0xE2, 0xD7, 0x8B, 0x48, 0x89, 0x6A, 0xBD, 0xD2, 0x5D, 0xC5, 0xCF, 0xB6, 0xA4, 0x8C, 0x55, 0x9E]),
      ([0xA4, 0x35, 0x31, 0x61, 0x66, 0x63, 0x64, 0x65, 0x39, 0x66, 0x35, 0x36, 0x61, 0x31, 0x33, 0x32],
       [0x2F, 0x5A, 0x0B, 0xEA, 0x21, 0xE1, 0xD6, 0xDB, 0xD9, 0xC8, 0xF3, 0x4C, 0x69, 0x1E, 0x12, 0xDC]),
      ([0x30, 0x39, 0x36, 0x63, 0x30, 0x34, 0x39, 0x36, 0x63, 0x63, 0x39, 0x35, 0x65, 0x62, 0x32, 0x34],
       [0x83, 0xCA, 0xC6, 0x50, 0xC0, 0x14, 0xD4, 0x1F, 0x69, 0xD3, 0x81, 0xB0, 0xCE, 0x74, 0x9F, 0xF5]),
      ([0x62, 0xA4, 0x31, 0xA4, 0x33, 0x31, 0x33, 0x35, 0x35, 0x35, 0x36, 0xA4, 0x34, 0xA4, 0x2E, 0x2E],
       [0x93, 0x97, 0x0E, 0xFA, 0xDB, 0xBF, 0xA1, 0x55, 0xEA, 0x59, 0xA4, 0x69, 0xEE, 0x32, 0x21, 0xE2]),
      ([0x62, 0xA4, 0x31, 0xA4, 0x33, 0x31, 0x33, 0x35, 0x35, 0x35, 0x36, 0xA4, 0x34, 0xA4, 0x00, 0x00],
       [0x58, 0x00, 0x0C, 0x43, 0x22, 0xF4, 0x45, 0xA4, 0x20, 0xB9, 0xCA, 0x7C, 0x2C, 0xD5, 0xBF, 0xBF]),
      ([0x63, 0x63, 0x30, 0x33, 0x34, 0x65, 0x39, 0x66, 0x61, 0x65, 0x63, 0x61, 0x63, 0x34, 0x30, 0x37],
       [0x5C, 0x72, 0xFC, 0xB6, 0x39, 0x18, 0x2F, 0x6F, 0xA2, 0xEF, 0xA5, 0xCC, 0x1B, 0x33, 0xFC, 0x9D]),
      ([0x63, 0x35, 0x65, 0x31, 0x66, 0x62, 0x33, 0x33, 0x35, 0x64, 0x61, 0x61, 0x38, 0x65, 0x31, 0x38],
       [0xDA, 0x85, 0x66, 0xD3, 0xF7, 0xAF, 0xD3, 0x80, 0xB6, 0x7F, 0x53, 0x2A, 0xA0, 0x67, 0x1C, 0xB1]),
      ([0x62, 0xA4, 0x31, 0xA4, 0x31, 0x32, 0x33, 0x34, 0x35, 0x36, 0x37, 0x38, 0x39, 0xA4, 0x34, 0xA4],
       [0xDF, 0x42, 0x3F, 0x25, 0x74, 0xDC, 0x0A, 0x31, 0xDA, 0x8B, 0x94, 0xD3, 0x53, 0x6A, 0x75, 0x3D]),
      ([0x2E, 0x2E, 0x2E, 0x2E, 0x2E, 0x2E, 0x2E, 0x2E, 0x2E, 0x2E, 0x2E, 0x2E, 0x2E, 0x2E, 0x2E, 0x2E],
       [0x2A, 0xFC, 0xA9, 0x4B, 0xD5, 0xF6, 0xDA, 0xCC, 0x53, 0xA9, 0x39, 0x1E, 0x96, 0xD6, 0x81, 0x8B]),
      ([0x66, 0x37, 0x36, 0x37, 0x33, 0x36, 0x63, 0x30, 0x61, 0x62, 0x34, 0x34, 0x32, 0x62, 0x33, 0x37],
       [0x75, 0x7A, 0xB8, 0x35, 0x9C, 0x10, 0x27, 0xD2, 0xF9, 0xAC, 0x61, 0x7F, 0xB1, 0x74, 0x2D, 0xF6]),
      ([0x33, 0x39, 0x31, 0x65, 0x62, 0x32, 0x39, 0x66, 0x61, 0x64, 0x30, 0x61, 0x36, 0x31, 0x63, 0x38],
       [0xA4, 0x41, 0x70, 0x29, 0x62, 0x74, 0x25, 0x66, 0xD2, 0x9A, 0x19, 0x0D, 0x12, 0x96, 0x67, 0x0B]),
      ([0xA4, 0xA4, 0x31, 0xA4, 0x33, 0x31, 0x33, 0x35, 0x35, 0x35, 0x36, 0xA4, 0x34, 0xA4, 0x2E, 0x2E],
       [0xEB, 0xEF, 0x31, 0x7C, 0x96, 0x6A, 0x72, 0x0D, 0x45, 0x1E, 0x37, 0x7E, 0x01, 0xA8, 0xF4, 0x52])]"

definition vector_lib :: py_lib where
  "vector_lib =
     \<lparr>md5_hexdigest =
        (\<lambda>bs. case map_of md5_vectors bs of Some h \<Rightarrow> h | None \<Rightarrow> replicate 32 CHR ''0''),
      aes_block = (\<lambda>key b. case map_of aes_vectors b of Some c \<Rightarrow> c | None \<Rightarrow> b),
      str_container = (\<lambda>v. ''[...]'')\<rparr>"

definition hash_A :: string where
  "hash_A = ''51afcde9f56a132096c0496cc95eb24b''"

text \<open>A client after a successful login, and one that has not logged in.\<close>

definition some_client :: client where
  "some_client =
     \<lparr>logged_in = True, session = Some 7,
      config = \<lparr>arl = ''valid-arl'', quality = 2, use_deezloader = False,
                deezloader_warnings = True\<rparr>\<rparr>"

definition fresh_client :: "string \<Rightarrow> client" where
  "fresh_client a =
     \<lparr>logged_in = False, session = None,
      config = \<lparr>arl = a, quality = 2, use_deezloader = False, deezloader_warnings = True\<rparr>\<rparr>"

text \<open>What the private API returns for a track, with a given \<open>MD5_ORIGIN\<close>.\<close>

definition gw_track :: "string \<Rightarrow> json" where
  "gw_track md5_origin =
     JDict [(''SNG_ID'', JStr ''3135556''),
            (''MD5_ORIGIN'', JStr md5_origin),
            (''MEDIA_VERSION'', JStr ''4''),
            (''FILESIZE_MP3_128'', JStr ''3262080''),
            (''FILESIZE_MP3_320'', JStr ''8155200''),
            (''FILESIZE_FLAC'', JStr ''25492683''),
            (''TRACK_TOKEN'', JStr ''token-3135556'')]"

definition track_item :: json where
  "track_item =
     JDict [(''id'', JInt 3135556), (''title'', JStr ''One''),
            (''album'', JDict [(''id'', JInt 302127)])]"

text \<open>
  A provider whose session supports the tiers 0 and 1 only: it refuses \<open>FLAC\<close> with
  \<open>WrongLicense\<close> and has a URL for the two MP3 formats. It accepts one \<open>arl\<close>.
\<close>

definition base_env :: deezer_env where
  "base_env =
     \<lparr>get_session = Inr 7,
      login_via_arl = (\<lambda>a. Inr (a = ''valid-arl'')),
      api_get_track = (\<lambda>i. Inr track_item),
      api_get_album = (\<lambda>i. Inr (JDict [(''id'', JInt 302127), (''title'', JStr ''Album'')])),
      api_get_album_tracks = (\<lambda>i. Inr (JDict [(''data'', JList [JDict [(''id'', JInt 3135556)]])])),
      api_get_playlist = (\<lambda>i. Inr (JDict [(''id'', JInt 1)])),
      api_get_playlist_tracks = (\<lambda>i. Inr (JDict [(''data'', JList [])])),
      api_get_artist = (\<lambda>i. Inr (JDict [(''id'', JInt 27)])),
      api_get_artist_albums = (\<lambda>i. Inr (JDict [(''data'', JList [])])),
      gw_get_track = (\<lambda>i. Inr (gw_track hash_A)),
      get_track_url =
        (\<lambda>token format_str.
           if format_str = ''FLAC'' then Inl WrongLicense
           else Inr (Some (''https://media.example/'' @ format_str))),
      first_raises_first = True\<rparr>"

text \<open>The same provider when the URL request answers with no URL.\<close>

definition no_url_env :: deezer_env where
  "no_url_env = base_env\<lparr>get_track_url := (\<lambda>token format_str. Inr None)\<rparr>"

text \<open>No URL, and a track whose \<open>MD5_ORIGIN\<close> is the empty string.\<close>

definition empty_hash_env :: deezer_env where
  "empty_hash_env = no_url_env\<lparr>gw_get_track := (\<lambda>i. Inr (gw_track []))\<rparr>"

text \<open>The same provider when the request for the track listing of an album fails.\<close>

definition failing_album_env :: deezer_env where
  "failing_album_env =
     base_env\<lparr>api_get_album_tracks := (\<lambda>i. Inl (LibraryError ''timed out''))\<rparr>"

text \<open>The same provider when the login request cannot reach it, and a client class whose
  session factory raises.\<close>

definition offline_env :: deezer_env where
  "offline_env =
     base_env\<lparr>login_via_arl := (\<lambda>a. Inl (LibraryError ''connection refused''))\<rparr>"

definition no_session_env :: deezer_env where
  "no_session_env = base_env\<lparr>get_session := Inl (LibraryError ''no running event loop'')\<rparr>"


definition example_from_resp :: "json \<Rightarrow> string \<Rightarrow> exn + label_metadata" where
  "example_from_resp resp src = Inr \<lparr>meta_name = ''Label'', meta_album_ids = [''a1'', ''a2'']\<rparr>"


section \<open>Properties of the rip state machine\<close>

lemma rip_phases_prefix:
  "fst (rip m s) \<in> {[Preprocess], [Preprocess, Download], [Preprocess, Download, Postprocess]}"
  by (simp add: rip_def await_phase_def split: sum.splits)

text \<open>
  Claim C7, as stated: for every Media object \<open>rip\<close> performs exactly the three phases.
  It fails for an object whose \<open>preprocess\<close> raises: the exception leaves \<open>rip\<close> and
  neither \<open>download\<close> nor \<open>postprocess\<close> is invoked.
\<close>

theorem C7_rip_counterexample:
  "rip base_media (0::nat) = ([Preprocess], Inl TypeError)"
  by (simp add: rip_def await_phase_def base_media_def)

text \<open>
  Claim C7, amended: \<open>rip\<close> invokes \<open>preprocess\<close>, then \<open>download\<close>, then
  \<open>postprocess\<close>, in this order and nothing else, each phase on the state its predecessor
  returned, and each phase only if its predecessor returned: when a phase raises, the
  exception leaves \<open>rip\<close> and the phases after it are not invoked. When \<open>preprocess\<close>
  and \<open>download\<close> return, exactly the three phases are invoked and the outcome of \<open>rip\<close>
  is the outcome of \<open>postprocess\<close>.
\<close>

theorem C7_rip_phases:
  "(\<forall>e. preprocess m s = Inl e \<longrightarrow> rip m s = ([Preprocess], Inl e)) \<and>
   (\<forall>s1 e. preprocess m s = Inr s1 \<and> download m s1 = Inl e \<longrightarrow>
      rip m s = ([Preprocess, Download], Inl e)) \<and>
   (\<forall>s1 s2. preprocess m s = Inr s1 \<and> download m s1 = Inr s2 \<longrightarrow>
      rip m s = ([Preprocess, Download, Postprocess], postprocess m s2))"
  by (simp add: rip_def await_phase_def)

theorem C7_rip_phases_witness:
  "rip counting_media 0 = ([Preprocess, Download, Postprocess], Inr 3) \<and>
   rip failing_download_media 0 = ([Preprocess, Download], Inl (LibraryError ''connection reset'')) \<and>
   rip (base_media :: nat media) 0 = ([Preprocess], Inl TypeError)"
proof -
  have a: "preprocess counting_media 0 = Inr 1 \<and> download counting_media 1 = Inr 2"
    by (simp add: counting_media_def)
  have b: "preprocess failing_download_media 0 = Inr 1 \<and>
           download failing_download_media 1 = Inl (LibraryError ''connection reset'')"
    by (simp add: failing_download_media_def)
  have c: "preprocess (base_media :: nat media) 0 = Inl TypeError"
    by (simp add: base_media_def)
  have "rip counting_media 0 = ([Preprocess, Download, Postprocess], postprocess counting_media 2)"
    using C7_rip_phases [of counting_media 0] a by blast
  moreover have "rip failing_download_media 0 =
      ([Preprocess, Download], Inl (LibraryError ''connection reset''))"
    using C7_rip_phases [of failing_download_media 0] b by blast
  moreover have "rip (base_media :: nat media) 0 = ([Preprocess], Inl TypeError)"
    using C7_rip_phases [of base_media 0] c by blast
  ultimately show ?thesis
    by (simp add: counting_media_def numeral_3_eq_3)
qed

section \<open>Properties of the derived URL\<close>

subsection \<open>Bytes and text\<close>

lemma decode_Nil: "decode [] = []"
  by (simp add: decode_def)

lemma decode_append: "decode (xs @ ys) = decode xs @ decode ys"
  by (simp add: decode_def)

lemma decode_encode: "decode (encode s) = s"
  by (induction s) (simp_all add: decode_def encode_def unat_of_nat)

lemma decode_hexlify:
  "decode (hexlify bs) =
     concat (map (\<lambda>b. [''0123456789abcdef'' ! (unat b div 16),
                         ''0123456789abcdef'' ! (unat b mod 16)]) bs)"
  by (induction bs) (simp_all add: hexlify_def decode_append decode_encode decode_Nil)

lemma length_aes_key: "length aes_key = 16"
  by (simp add: aes_key_def encode_def)

lemma blocks16_Nil: "blocks16 [] = []"
  by simp

lemma blocks16_step:
  "blocks16 (a0 # a1 # a2 # a3 # a4 # a5 # a6 # a7 # a8 # a9 # a10 # a11 # a12 # a13 # a14 # a15 # xs) =
     [a0, a1, a2, a3, a4, a5, a6, a7, a8, a9, a10, a11, a12, a13, a14, a15] # blocks16 xs"
  by (subst blocks16.simps) simp

lemma url_bytes_unfold:
  "url_bytes meta_id track_hash media_version =
     encode track_hash @ [0xA4] @ encode ''1'' @ [0xA4] @
     encode meta_id @ [0xA4] @ encode media_version"
  by (simp add: url_bytes_def str_int_def format_number_def)

subsection \<open>The padding\<close>

lemma padding_len_bounds: "1 \<le> padding_len bs \<and> padding_len bs \<le> 16"
proof -
  have "length bs mod 16 < 16" by simp
  then show ?thesis unfolding padding_len_def by linarith
qed

lemma padded_length:
  "length (padded_info_bytes lib meta_id track_hash media_version) =
     length (info_bytes lib meta_id track_hash media_version) +
     padding_len (info_bytes lib meta_id track_hash media_version)"
  by (simp add: padded_info_bytes_def Let_def)

lemma padded_aligned:
  "length (padded_info_bytes lib meta_id track_hash media_version) mod 16 = 0"
proof -
  define n where "n = length (info_bytes lib meta_id track_hash media_version)"
  have "n mod 16 < 16" by simp
  then have "(n + (16 - n mod 16)) mod 16 = 0"
    by presburger
  then show ?thesis
    by (simp add: padded_length padding_len_def n_def)
qed

lemma encrypt_padded:
  "aes_ecb_encrypt lib aes_key (padded_info_bytes lib meta_id track_hash media_version) =
     Inr (concat (map (aes_block lib aes_key)
                    (blocks16 (padded_info_bytes lib meta_id track_hash media_version))))"
  by (simp add: aes_ecb_encrypt_def length_aes_key padded_aligned)

lemma encrypted_path_eq:
  "encrypted_path lib meta_id track_hash media_version =
     Inr (decode (hexlify (concat (map (aes_block lib aes_key)
            (blocks16 (padded_info_bytes lib meta_id track_hash media_version))))))"
  by (simp add: encrypted_path_def encrypt_padded and_then_def)

lemma derived_url_nonempty_hash:
  "get_encrypted_file_url lib self meta_id (c # cs) media_version =
     Inr (''https://e-cdns-proxy-'' @ [c] @ ''.dzcdn.net/mobile/1/'' @
          decode (hexlify (concat (map (aes_block lib aes_key)
             (blocks16 (padded_info_bytes lib meta_id (c # cs) media_version))))))"
  by (simp add: get_encrypted_file_url_def encrypted_path_eq and_then_def)

lemma derived_url_empty_hash:
  "get_encrypted_file_url lib self meta_id [] media_version = Inl IndexError"
  by (simp add: get_encrypted_file_url_def encrypted_path_eq and_then_def)

subsection \<open>The examples\<close>

lemma url_bytes_A:
  "url_bytes ''3135556'' hash_A ''4'' =
     [0x35, 0x31, 0x61, 0x66, 0x63, 0x64, 0x65, 0x39, 0x66, 0x35, 0x36, 0x61, 0x31, 0x33, 0x32, 0x30,
      0x39, 0x36, 0x63, 0x30, 0x34, 0x39, 0x36, 0x63, 0x63, 0x39, 0x35, 0x65, 0x62, 0x32, 0x34, 0x62,
      0xA4, 0x31, 0xA4, 0x33, 0x31, 0x33, 0x35, 0x35, 0x35, 0x36, 0xA4, 0x34]"
  by (simp add: url_bytes_def encode_def str_int_def format_number_def hash_A_def)

lemma info_bytes_A:
  "info_bytes vector_lib ''3135556'' hash_A ''4'' =
     [0x39, 0x39, 0x62, 0x38, 0x32, 0x65, 0x65, 0x63, 0x65, 0x65, 0x65, 0x64, 0x64, 0x35, 0x30, 0x62,
      0x38, 0x33, 0x33, 0x31, 0x31, 0x33, 0x37, 0x66, 0x30, 0x32, 0x65, 0x63, 0x66, 0x61, 0x39, 0x36,
      0xA4, 0x35, 0x31, 0x61, 0x66, 0x63, 0x64, 0x65, 0x39, 0x66, 0x35, 0x36, 0x61, 0x31, 0x33, 0x32,
      0x30, 0x39, 0x36, 0x63, 0x30, 0x34, 0x39, 0x36, 0x63, 0x63, 0x39, 0x35, 0x65, 0x62, 0x32, 0x34,
      0x62, 0xA4, 0x31, 0xA4, 0x33, 0x31, 0x33, 0x35, 0x35, 0x35, 0x36, 0xA4, 0x34, 0xA4]"
  by (simp add: info_bytes_def url_bytes_A vector_lib_def md5_vectors_def encode_def)

lemma padding_len_A: "padding_len (info_bytes vector_lib ''3135556'' hash_A ''4'') = 2"
  by (simp add: padding_len_def info_bytes_A)

lemma padded_info_bytes_A:
  "padded_info_bytes vector_lib ''3135556'' hash_A ''4'' =
     [0x39, 0x39, 0x62, 0x38, 0x32, 0x65, 0x65, 0x63, 0x65, 0x65, 0x65, 0x64, 0x64, 0x35, 0x30, 0x62,
      0x38, 0x33, 0x33, 0x31, 0x31, 0x33, 0x37, 0x66, 0x30, 0x32, 0x65, 0x63, 0x66, 0x61, 0x39, 0x36,
      0xA4, 0x35, 0x31, 0x61, 0x66, 0x63, 0x64, 0x65, 0x39, 0x66, 0x35, 0x36, 0x61, 0x31, 0x33, 0x32,
      0x30, 0x39, 0x36, 0x63, 0x30, 0x34, 0x39, 0x36, 0x63, 0x63, 0x39, 0x35, 0x65, 0x62, 0x32, 0x34,
      0x62, 0xA4, 0x31, 0xA4, 0x33, 0x31, 0x33, 0x35, 0x35, 0x35, 0x36, 0xA4, 0x34, 0xA4, 0x2E, 0x2E]"
  unfolding padded_info_bytes_def Let_def padding_len_A
  by (simp add: info_bytes_A eval_nat_numeral)

lemma encrypted_A:
  "aes_ecb_encrypt vector_lib aes_key (padded_info_bytes vector_lib ''3135556'' hash_A ''4'') =
     Inr [0xF3, 0xB9, 0x9B, 0x9F, 0xF0, 0x09, 0xE3, 0xCB, 0x4C, 0xC1, 0x6F, 0x2F, 0xF1, 0x9F, 0xCC, 0xB9,
          0xE2, 0xD7, 0x8B, 0x48, 0x89, 0x6A, 0xBD, 0xD2, 0x5D, 0xC5, 0xCF, 0xB6, 0xA4, 0x8C, 0x55, 0x9E,
          0x2F, 0x5A, 0x0B, 0xEA, 0x21, 0xE1, 0xD6, 0xDB, 0xD9, 0xC8, 0xF3, 0x4C, 0x69, 0x1E, 0x12, 0xDC,
          0x83, 0xCA, 0xC6, 0x50, 0xC0, 0x14, 0xD4, 0x1F, 0x69, 0xD3, 0x81, 0xB0, 0xCE, 0x74, 0x9F, 0xF5,
          0x93, 0x97, 0x0E, 0xFA, 0xDB, 0xBF, 0xA1, 0x55, 0xEA, 0x59, 0xA4, 0x69, 0xEE, 0x32, 0x21, 0xE2]"
  by (simp only: padded_info_bytes_A aes_ecb_encrypt_def length_aes_key blocks16_step blocks16_Nil)
     (simp add: vector_lib_def aes_vectors_def)

lemma encrypted_path_A:
  "encrypted_path vector_lib ''3135556'' hash_A ''4'' =
     Inr (''f3b99b9ff009e3cb4cc16f2ff19fccb9e2d78b48896abdd25dc5cfb6a48c559e'' @
          ''2f5a0bea21e1d6dbd9c8f34c691e12dc83cac650c014d41f69d381b0ce749ff5'' @
          ''93970efadbbfa155ea59a469ee3221e2'')"
  unfolding encrypted_path_def encrypted_A and_then_def
  by (simp add: decode_hexlify)

lemma derived_url_A:
  "get_encrypted_file_url vector_lib self ''3135556'' hash_A ''4'' =
     Inr (''https://e-cdns-proxy-5.dzcdn.net/mobile/1/'' @
          ''f3b99b9ff009e3cb4cc16f2ff19fccb9e2d78b48896abdd25dc5cfb6a48c559e'' @
          ''2f5a0bea21e1d6dbd9c8f34c691e12dc83cac650c014d41f69d381b0ce749ff5'' @
          ''93970efadbbfa155ea59a469ee3221e2'')"
  unfolding get_encrypted_file_url_def encrypted_path_A and_then_def
  by (simp add: hash_A_def)

lemma url_bytes_B:
  "url_bytes ''123456789'' hash_A ''4'' =
     [0x35, 0x31, 0x61, 0x66, 0x63, 0x64, 0x65, 0x39, 0x66, 0x35, 0x36, 0x61, 0x31, 0x33, 0x32, 0x30,
      0x39, 0x36, 0x63, 0x30, 0x34, 0x39, 0x36, 0x63, 0x63, 0x39, 0x35, 0x65, 0x62, 0x32, 0x34, 0x62,
      0xA4, 0x31, 0xA4, 0x31, 0x32, 0x33, 0x34, 0x35, 0x36, 0x37, 0x38, 0x39, 0xA4, 0x34]"
  by (simp add: url_bytes_def encode_def str_int_def format_number_def hash_A_def)

lemma info_bytes_B:
  "info_bytes vector_lib ''123456789'' hash_A ''4'' =
     [0x63, 0x63, 0x30, 0x33, 0x34, 0x65, 0x39, 0x66, 0x61, 0x65, 0x63, 0x61, 0x63, 0x34, 0x30, 0x37,
      0x63, 0x35, 0x65, 0x31, 0x66, 0x62, 0x33, 0x33, 0x35, 0x64, 0x61, 0x61, 0x38, 0x65, 0x31, 0x38,
      0xA4, 0x35, 0x31, 0x61, 0x66, 0x63, 0x64, 0x65, 0x39, 0x66, 0x35, 0x36, 0x61, 0x31, 0x33, 0x32,
      0x30, 0x39, 0x36, 0x63, 0x30, 0x34, 0x39, 0x36, 0x63, 0x63, 0x39, 0x35, 0x65, 0x62, 0x32, 0x34,
      0x62, 0xA4, 0x31, 0xA4, 0x31, 0x32, 0x33, 0x34, 0x35, 0x36, 0x37, 0x38, 0x39, 0xA4, 0x34, 0xA4]"
  by (simp add: info_bytes_def url_bytes_B vector_lib_def md5_vectors_def encode_def)

lemma padding_len_B: "padding_len (info_bytes vector_lib ''123456789'' hash_A ''4'') = 16"
  by (simp add: padding_len_def info_bytes_B)

lemma padded_info_bytes_B:
  "padded_info_bytes vector_lib ''123456789'' hash_A ''4'' =
     [0x63, 0x63, 0x30, 0x33, 0x34, 0x65, 0x39, 0x66, 0x61, 0x65, 0x63, 0x61, 0x63, 0x34, 0x30, 0x37,
      0x63, 0x35, 0x65, 0x31, 0x66, 0x62, 0x33, 0x33, 0x35, 0x64, 0x61, 0x61, 0x38, 0x65, 0x31, 0x38,
      0xA4, 0x35, 0x31, 0x61, 0x66, 0x63, 0x64, 0x65, 0x39, 0x66, 0x35, 0x36, 0x61, 0x31, 0x33, 0x32,
      0x30, 0x39, 0x36, 0x63, 0x30, 0x34, 0x39, 0x36, 0x63, 0x63, 0x39, 0x35, 0x65, 0x62, 0x32, 0x34,
      0x62, 0xA4, 0x31, 0xA4, 0x31, 0x32, 0x33, 0x34, 0x35, 0x36, 0x37, 0x38, 0x39, 0xA4, 0x34, 0xA4,
      0x2E, 0x2E, 0x2E, 0x2E, 0x2E, 0x2E, 0x2E, 0x2E, 0x2E, 0x2E, 0x2E, 0x2E, 0x2E, 0x2E, 0x2E, 0x2E]"
  unfolding padded_info_bytes_def Let_def padding_len_B
  by (simp add: info_bytes_B eval_nat_numeral)

lemma encrypted_B:
  "aes_ecb_encrypt vector_lib aes_key (padded_info_bytes vector_lib ''123456789'' hash_A ''4'') =
     Inr [0x5C, 0x72, 0xFC, 0xB6, 0x39, 0x18, 0x2F, 0x6F, 0xA2, 0xEF, 0xA5, 0xCC, 0x1B, 0x33, 0xFC, 0x9D,
          0xDA, 0x85, 0x66, 0xD3, 0xF7, 0xAF, 0xD3, 0x80, 0xB6, 0x7F, 0x53, 0x2A, 0xA0, 0x67, 0x1C, 0xB1,
          0x2F, 0x5A, 0x0B, 0xEA, 0x21, 0xE1, 0xD6, 0xDB, 0xD9, 0xC8, 0xF3, 0x4C, 0x69, 0x1E, 0x12, 0xDC,
          0x83, 0xCA, 0xC6, 0x50, 0xC0, 0x14, 0xD4, 0x1F, 0x69, 0xD3, 0x81, 0xB0, 0xCE, 0x74, 0x9F, 0xF5,
          0xDF, 0x42, 0x3F, 0x25, 0x74, 0xDC, 0x0A, 0x31, 0xDA, 0x8B, 0x94, 0xD3, 0x53, 0x6A, 0x75, 0x3D,
          0x2A, 0xFC, 0xA9, 0x4B, 0xD5, 0xF6, 0xDA, 0xCC, 0x53, 0xA9, 0x39, 0x1E, 0x96, 0xD6, 0x81, 0x8B]"
  by (simp only: padded_info_bytes_B aes_ecb_encrypt_def length_aes_key blocks16_step blocks16_Nil)
     (simp add: vector_lib_def aes_vectors_def)

lemma encrypted_path_B:
  "encrypted_path vector_lib ''123456789'' hash_A ''4'' =
     Inr (''5c72fcb639182f6fa2efa5cc1b33fc9dda8566d3f7afd380b67f532aa0671cb1'' @
          ''2f5a0bea21e1d6dbd9c8f34c691e12dc83cac650c014d41f69d381b0ce749ff5'' @
          ''df423f2574dc0a31da8b94d3536a753d2afca94bd5f6dacc53a9391e96d6818b'')"
  unfolding encrypted_path_def encrypted_B and_then_def
  by (simp add: decode_hexlify)

lemma derived_url_B:
  "get_encrypted_file_url vector_lib self ''123456789'' hash_A ''4'' =
     Inr (''https://e-cdns-proxy-5.dzcdn.net/mobile/1/'' @
          ''5c72fcb639182f6fa2efa5cc1b33fc9dda8566d3f7afd380b67f532aa0671cb1'' @
          ''2f5a0bea21e1d6dbd9c8f34c691e12dc83cac650c014d41f69d381b0ce749ff5'' @
          ''df423f2574dc0a31da8b94d3536a753d2afca94bd5f6dacc53a9391e96d6818b'')"
  unfolding get_encrypted_file_url_def encrypted_path_B and_then_def
  by (simp add: hash_A_def)

lemma spec_buffer_A:
  "spec_zero_pad (info_bytes vector_lib ''3135556'' hash_A ''4'') =
     [0x39, 0x39, 0x62, 0x38, 0x32, 0x65, 0x65, 0x63, 0x65, 0x65, 0x65, 0x64, 0x64, 0x35, 0x30, 0x62,
      0x38, 0x33, 0x33, 0x31, 0x31, 0x33, 0x37, 0x66, 0x30, 0x32, 0x65, 0x63, 0x66, 0x61, 0x39, 0x36,
      0xA4, 0x35, 0x31, 0x61, 0x66, 0x63, 0x64, 0x65, 0x39, 0x66, 0x35, 0x36, 0x61, 0x31, 0x33, 0x32,
      0x30, 0x39, 0x36, 0x63, 0x30, 0x34, 0x39, 0x36, 0x63, 0x63, 0x39, 0x35, 0x65, 0x62, 0x32, 0x34,
      0x62, 0xA4, 0x31, 0xA4, 0x33, 0x31, 0x33, 0x35, 0x35, 0x35, 0x36, 0xA4, 0x34, 0xA4, 0x00, 0x00]"
proof -
  have "length (info_bytes vector_lib ''3135556'' hash_A ''4'') = 78"
    by (simp add: info_bytes_A)
  then have "spec_zero_pad (info_bytes vector_lib ''3135556'' hash_A ''4'') =
      info_bytes vector_lib ''3135556'' hash_A ''4'' @ replicate 2 0x00"
    by (simp add: spec_zero_pad_def)
  then show ?thesis
    by (simp add: info_bytes_A numeral_2_eq_2)
qed

lemma spec_resource_path_A:
  "spec_resource_path vector_lib hash_A 1 ''3135556'' ''4'' =
     Inr (''f3b99b9ff009e3cb4cc16f2ff19fccb9e2d78b48896abdd25dc5cfb6a48c559e'' @
          ''2f5a0bea21e1d6dbd9c8f34c691e12dc83cac650c014d41f69d381b0ce749ff5'' @
          ''58000c4322f445a420b9ca7c2cd5bfbf'')"
proof -
  have joined: "bytes_join [0xA4] [encode hash_A, encode (str_int 1), encode ''3135556'', encode ''4''] =
      url_bytes ''3135556'' hash_A ''4''"
    by (simp add: url_bytes_def format_number_def)
  have buffer: "spec_zero_pad (encode (md5_hexdigest vector_lib (url_bytes ''3135556'' hash_A ''4'')) @ [0xA4] @
      url_bytes ''3135556'' hash_A ''4'' @ [0xA4]) =
      spec_zero_pad (info_bytes vector_lib ''3135556'' hash_A ''4'')"
    by (simp add: info_bytes_def Let_def)
  have enc: "aes_ecb_encrypt vector_lib aes_key (spec_zero_pad (info_bytes vector_lib ''3135556'' hash_A ''4'')) =
      Inr [0xF3, 0xB9, 0x9B, 0x9F, 0xF0, 0x09, 0xE3, 0xCB, 0x4C, 0xC1, 0x6F, 0x2F, 0xF1, 0x9F, 0xCC, 0xB9,
           0xE2, 0xD7, 0x8B, 0x48, 0x89, 0x6A, 0xBD, 0xD2, 0x5D, 0xC5, 0xCF, 0xB6, 0xA4, 0x8C, 0x55, 0x9E,
           0x2F, 0x5A, 0x0B, 0xEA, 0x21, 0xE1, 0xD6, 0xDB, 0xD9, 0xC8, 0xF3, 0x4C, 0x69, 0x1E, 0x12, 0xDC,
           0x83, 0xCA, 0xC6, 0x50, 0xC0, 0x14, 0xD4, 0x1F, 0x69, 0xD3, 0x81, 0xB0, 0xCE, 0x74, 0x9F, 0xF5,
           0x58, 0x00, 0x0C, 0x43, 0x22, 0xF4, 0x45, 0xA4, 0x20, 0xB9, 0xCA, 0x7C, 0x2C, 0xD5, 0xBF, 0xBF]"
    by (simp only: spec_buffer_A aes_ecb_encrypt_def length_aes_key blocks16_step blocks16_Nil)
       (simp add: vector_lib_def aes_vectors_def)
  show ?thesis
    unfolding spec_resource_path_def Let_def joined buffer enc and_then_def
    by (simp add: decode_hexlify)
qed

subsection \<open>The claims about the derivation\<close>

text \<open>
  Claim C3, as stated: the derivation pads the buffer with zero bytes. On the track
  \<open>3135556\<close> with the hash \<open>hash_A\<close> and version \<open>4\<close> the buffer is 78 bytes
  long; the code appends two bytes \<open>0x2E\<close> (the character \<open>.\<close>), the
  specification's steps append two zero bytes, and the last encrypted block, hence the
  path, differs.
\<close>

theorem C3_zero_padding_counterexample:
  "encrypted_path vector_lib ''3135556'' hash_A ''4'' =
     Inr (''f3b99b9ff009e3cb4cc16f2ff19fccb9e2d78b48896abdd25dc5cfb6a48c559e'' @
          ''2f5a0bea21e1d6dbd9c8f34c691e12dc83cac650c014d41f69d381b0ce749ff5'' @
          ''93970efadbbfa155ea59a469ee3221e2'') \<and>
   spec_resource_path vector_lib hash_A 1 ''3135556'' ''4'' =
     Inr (''f3b99b9ff009e3cb4cc16f2ff19fccb9e2d78b48896abdd25dc5cfb6a48c559e'' @
          ''2f5a0bea21e1d6dbd9c8f34c691e12dc83cac650c014d41f69d381b0ce749ff5'' @
          ''58000c4322f445a420b9ca7c2cd5bfbf'') \<and>
   encrypted_path vector_lib ''3135556'' hash_A ''4'' \<noteq>
     spec_resource_path vector_lib hash_A 1 ''3135556'' ''4''"
  by (simp add: encrypted_path_A spec_resource_path_A)

text \<open>
  Claim C3, amended: for every track hash, id and version the derivation follows exactly
  these steps. It joins the track hash, the format code, which is the constant \<open>1\<close>,
  the id and the version with the separator \<open>0xA4\<close>; takes the MD5 hex digest of the
  joined bytes; puts the digest and a separator in front of the joined bytes and a
  separator behind; appends between 1 and 16 bytes \<open>0x2E\<close> (the character \<open>.\<close>),
  as many as bring the length to the next multiple of 16 above it; encrypts every 16-byte
  block with AES under the fixed key (ECB mode); and writes the result in hexadecimal.
  This is the resource path, and the URL of a non-empty track hash is the path behind
  \<open>https://e-cdns-proxy-\<close>, the first character of the hash and
  \<open>.dzcdn.net/mobile/1/\<close>.
\<close>

theorem C3_derivation_steps:
  "encrypted_path lib meta_id track_hash media_version =
     (let joined = encode track_hash @ [0xA4] @ encode ''1'' @ [0xA4] @
                   encode meta_id @ [0xA4] @ encode media_version;
          digest = md5_hexdigest lib joined;
          buffer = encode digest @ [0xA4] @ joined @ [0xA4];
          padded = buffer @ replicate (16 - length buffer mod 16) 0x2E
      in Inr (decode (hexlify (concat (map (aes_block lib (encode ''jo6aey6haid2Teih''))
                                         (blocks16 padded)))))) \<and>
   get_encrypted_file_url lib self meta_id (c # cs) media_version =
     and_then (encrypted_path lib meta_id (c # cs) media_version)
       (\<lambda>path. Inr (''https://e-cdns-proxy-'' @ [c] @ ''.dzcdn.net/mobile/1/'' @ path))"
proof
  show "encrypted_path lib meta_id track_hash media_version =
     (let joined = encode track_hash @ [0xA4] @ encode ''1'' @ [0xA4] @
                   encode meta_id @ [0xA4] @ encode media_version;
          digest = md5_hexdigest lib joined;
          buffer = encode digest @ [0xA4] @ joined @ [0xA4];
          padded = buffer @ replicate (16 - length buffer mod 16) 0x2E
      in Inr (decode (hexlify (concat (map (aes_block lib (encode ''jo6aey6haid2Teih''))
                                         (blocks16 padded))))))"
    by (simp only: encrypted_path_eq padded_info_bytes_def info_bytes_def padding_len_def
        url_bytes_unfold Let_def aes_key_def)
  show "get_encrypted_file_url lib self meta_id (c # cs) media_version =
     and_then (encrypted_path lib meta_id (c # cs) media_version)
       (\<lambda>path. Inr (''https://e-cdns-proxy-'' @ [c] @ ''.dzcdn.net/mobile/1/'' @ path))"
    by (simp add: get_encrypted_file_url_def)
qed

theorem C3_derivation_steps_witness:
  "encrypted_path vector_lib ''3135556'' hash_A ''4'' =
     (let joined = encode hash_A @ [0xA4] @ encode ''1'' @ [0xA4] @
                   encode ''3135556'' @ [0xA4] @ encode ''4'';
          digest = md5_hexdigest vector_lib joined;
          buffer = encode digest @ [0xA4] @ joined @ [0xA4];
          padded = buffer @ replicate (16 - length buffer mod 16) 0x2E
      in Inr (decode (hexlify (concat (map (aes_block vector_lib (encode ''jo6aey6haid2Teih''))
                                         (blocks16 padded))))))"
  by (rule C3_derivation_steps [THEN conjunct1])

text \<open>
  Claim C8: the derived URL depends on nothing but the arguments of the method. Two
  invocations with the same id, track hash and version return the same outcome whatever
  the state of the client they are invoked on (logged in or not, with any session and
  any configuration); the format code is a constant of the method.
\<close>

theorem C8_derivation_deterministic:
  "get_encrypted_file_url lib self1 meta_id track_hash media_version =
   get_encrypted_file_url lib self2 meta_id track_hash media_version"
  by (simp add: get_encrypted_file_url_def)

theorem C8_derivation_deterministic_witness:
  "get_encrypted_file_url vector_lib some_client ''3135556'' hash_A ''4'' =
   get_encrypted_file_url vector_lib (fresh_client []) ''3135556'' hash_A ''4''"
  by (rule C8_derivation_deterministic)

text \<open>
  Claim C9, as stated: the derivation is total. For the empty track hash the encryption
  goes through, and the URL is not built: \<open>track_hash[0]\<close> raises \<open>IndexError\<close>.
\<close>

theorem C9_empty_hash_counterexample:
  "get_encrypted_file_url vector_lib some_client ''3135556'' [] ''4'' = Inl IndexError"
  by (rule derived_url_empty_hash)

text \<open>
  Claim C9, amended: for every input the computed padding length is between 1 and 16,
  it is 16 (a full extra block) when the length before padding is a multiple of 16, and
  the padded buffer has a positive length that is a multiple of 16; so the AES-ECB
  encryption never refuses the buffer, and the path is computed for every input. For
  every input with a non-empty track hash the derivation returns a URL.
\<close>

theorem C9_padding_block_aligned:
  "1 \<le> padding_len (info_bytes lib meta_id track_hash media_version) \<and>
   padding_len (info_bytes lib meta_id track_hash media_version) \<le> 16 \<and>
   (length (info_bytes lib meta_id track_hash media_version) mod 16 = 0 \<longrightarrow>
      padding_len (info_bytes lib meta_id track_hash media_version) = 16) \<and>
   length (padded_info_bytes lib meta_id track_hash media_version) =
     length (info_bytes lib meta_id track_hash media_version) +
     padding_len (info_bytes lib meta_id track_hash media_version) \<and>
   0 < length (padded_info_bytes lib meta_id track_hash media_version) \<and>
   length (padded_info_bytes lib meta_id track_hash media_version) mod 16 = 0 \<and>
   (\<exists>encrypted. aes_ecb_encrypt lib aes_key
        (padded_info_bytes lib meta_id track_hash media_version) = Inr encrypted) \<and>
   (\<exists>path. encrypted_path lib meta_id track_hash media_version = Inr path) \<and>
   (track_hash \<noteq> [] \<longrightarrow>
      (\<exists>url. get_encrypted_file_url lib self meta_id track_hash media_version = Inr url))"
proof -
  let ?ib = "info_bytes lib meta_id track_hash media_version"
  let ?p = "padded_info_bytes lib meta_id track_hash media_version"
  have bounds: "1 \<le> padding_len ?ib \<and> padding_len ?ib \<le> 16"
    by (rule padding_len_bounds)
  have full: "length ?ib mod 16 = 0 \<longrightarrow> padding_len ?ib = 16"
    by (simp add: padding_len_def)
  have len: "length ?p = length ?ib + padding_len ?ib"
    by (rule padded_length)
  have pos: "0 < length ?p"
    using bounds len by linarith
  have aligned: "length ?p mod 16 = 0"
    by (rule padded_aligned)
  have enc: "\<exists>encrypted. aes_ecb_encrypt lib aes_key ?p = Inr encrypted"
    by (simp add: encrypt_padded)
  have path: "\<exists>path. encrypted_path lib meta_id track_hash media_version = Inr path"
    by (simp add: encrypted_path_eq)
  have url: "track_hash \<noteq> [] \<longrightarrow>
      (\<exists>url. get_encrypted_file_url lib self meta_id track_hash media_version = Inr url)"
    by (cases track_hash) (simp_all add: derived_url_nonempty_hash)
  from bounds full len pos aligned enc path url show ?thesis
    by blast
qed

theorem C9_padding_block_aligned_witness:
  "length (info_bytes vector_lib ''123456789'' hash_A ''4'') = 80 \<and>
   padding_len (info_bytes vector_lib ''123456789'' hash_A ''4'') = 16 \<and>
   length (padded_info_bytes vector_lib ''123456789'' hash_A ''4'') = 96 \<and>
   (\<exists>url. get_encrypted_file_url vector_lib some_client ''123456789'' hash_A ''4'' = Inr url)"
proof -
  have len: "length (info_bytes vector_lib ''123456789'' hash_A ''4'') = 80"
    by (simp add: info_bytes_B)
  have nonempty: "hash_A \<noteq> []"
    by (simp add: hash_A_def)
  from len have "length (info_bytes vector_lib ''123456789'' hash_A ''4'') mod 16 = 0"
    by simp
  with nonempty len
    C9_padding_block_aligned [of vector_lib "''123456789''" hash_A "''4''" some_client]
  show ?thesis
    by simp
qed

section \<open>Properties of the negotiation\<close>

lemma quality_map_index:
  "py_index quality_map q = Inr (c, f) \<Longrightarrow> - 3 \<le> q \<and> q < 3"
  by (simp add: py_index_def quality_map_def split: if_splits)

lemma dl_request_base:
  "dl_request base_env ''3135556'' 2 =
     Inr (gw_track hash_A, JNone, ''FLAC'',
          [JStr ''3262080'', JStr ''8155200'', JStr ''25492683''], JStr ''token-3135556'')"
  by (simp add: dl_request_def base_env_def gw_track_def and_then_def dict_get_def
      getitem_def py_index_def quality_map_def)

lemma dl_request_base_1:
  "dl_request base_env ''3135556'' 1 =
     Inr (gw_track hash_A, JNone, ''MP3_320'',
          [JStr ''3262080'', JStr ''8155200'', JStr ''25492683''], JStr ''token-3135556'')"
  by (simp add: dl_request_def base_env_def gw_track_def and_then_def dict_get_def
      getitem_def py_index_def quality_map_def)

lemma dl_request_no_url:
  "dl_request no_url_env ''3135556'' 2 =
     Inr (gw_track hash_A, JNone, ''FLAC'',
          [JStr ''3262080'', JStr ''8155200'', JStr ''25492683''], JStr ''token-3135556'')"
  by (simp add: dl_request_def no_url_env_def base_env_def gw_track_def and_then_def dict_get_def
      getitem_def py_index_def quality_map_def)

lemma dl_request_empty_hash:
  "dl_request empty_hash_env ''3135556'' 2 =
     Inr (gw_track [], JNone, ''FLAC'',
          [JStr ''3262080'', JStr ''8155200'', JStr ''25492683''], JStr ''token-3135556'')"
  by (simp add: dl_request_def empty_hash_env_def no_url_env_def base_env_def gw_track_def
      and_then_def dict_get_def getitem_def py_index_def quality_map_def)

lemma fallback_url_str:
  "getitem track_info ''MD5_ORIGIN'' = Inr (JStr track_hash) \<Longrightarrow>
   getitem track_info ''MEDIA_VERSION'' = Inr media_version \<Longrightarrow>
   fallback_url lib self item_id track_info =
     get_encrypted_file_url lib self item_id track_hash (py_str lib media_version)"
  by (simp add: fallback_url_def and_then_def)

lemma fallback_url_A:
  "fallback_url vector_lib self ''3135556'' (gw_track hash_A) =
     get_encrypted_file_url vector_lib self ''3135556'' hash_A ''4''"
  by (simp add: fallback_url_def and_then_def gw_track_def getitem_def py_str_def)

lemma fallback_url_empty:
  "fallback_url lib self ''3135556'' (gw_track []) = Inl IndexError"
  by (simp add: fallback_url_def and_then_def gw_track_def getitem_def derived_url_empty_hash)

text \<open>
  Claim C1, as stated: when the session supports only the tiers up to some \<open>M\<close> below the
  requested tier, the negotiation yields tier \<open>M\<close> without an error. The provider of
  \<open>base_env\<close> supports the tiers 0 and 1: it has a URL for \<open>MP3_320\<close> and a request
  for tier 1 returns a downloadable of tier 1. A request for tier 2 does not yield tier 1:
  it raises \<open>NonStreamable\<close>.
\<close>

theorem C1_clamping_counterexample:
  "get_track_url base_env (JStr ''token-3135556'') ''MP3_320'' =
     Inr (Some ''https://media.example/MP3_320'') \<and>
   get_downloadable vector_lib base_env some_client ''3135556'' 1 =
     Inr (DeezerDownloadable 7
            \<lparr>dl_quality = 1, dl_id = ''3135556'', dl_fallback_id = JNone,
             dl_quality_to_size = [JStr ''3262080'', JStr ''8155200'', JStr ''25492683''],
             dl_url = ''https://media.example/MP3_320''\<rparr>) \<and>
   get_downloadable vector_lib base_env some_client ''3135556'' 2 =
     Inl (NonStreamable wrong_license_message)"
proof -
  have "get_downloadable vector_lib base_env some_client ''3135556'' 1 =
     Inr (DeezerDownloadable 7
            \<lparr>dl_quality = 1, dl_id = ''3135556'', dl_fallback_id = JNone,
             dl_quality_to_size = [JStr ''3262080'', JStr ''8155200'', JStr ''25492683''],
             dl_url = ''https://media.example/MP3_320''\<rparr>)"
    unfolding get_downloadable_def dl_request_base_1
    by (simp add: and_then_def fetch_url_def base_env_def some_client_def)
  moreover have "get_downloadable vector_lib base_env some_client ''3135556'' 2 =
     Inl (NonStreamable wrong_license_message)"
    unfolding get_downloadable_def dl_request_base
    by (simp add: and_then_def fetch_url_def base_env_def)
  moreover have "get_track_url base_env (JStr ''token-3135556'') ''MP3_320'' =
     Inr (Some ''https://media.example/MP3_320'')"
    by (simp add: base_env_def)
  ultimately show ?thesis
    by simp
qed

text \<open>
  Claim C1, amended: getDownloadable asks the provider for the format of exactly the
  requested tier and never replaces the tier by a lower one. The format it sends is the
  entry of the quality map at the requested tier (\<open>MP3_128\<close> for 0, \<open>MP3_320\<close> for 1,
  \<open>FLAC\<close> for 2), and its outcome depends on the provider's URL request at this format
  alone, whatever the provider would answer for any other format. When the provider
  refuses the format with \<open>WrongLicense\<close> (the session does not support the tier),
  getDownloadable raises \<open>NonStreamable\<close>; when the provider has a URL for the format,
  the Downloadable carries this URL; and every Downloadable that is returned carries the
  requested tier, which indexes the quality map.
\<close>

theorem C1_requested_tier_or_nonstreamable:
  "(\<forall>track_info fallback_id format_str sizes token.
      dl_request env item_id q = Inr (track_info, fallback_id, format_str, sizes, token) \<longrightarrow>
      (\<exists>code. py_index quality_map q = Inr (code, format_str)) \<and>
      (q = 0 \<longrightarrow> format_str = ''MP3_128'') \<and>
      (q = 1 \<longrightarrow> format_str = ''MP3_320'') \<and>
      (q = 2 \<longrightarrow> format_str = ''FLAC'') \<and>
      (\<forall>g. g token format_str = get_track_url env token format_str \<longrightarrow>
         get_downloadable lib (env\<lparr>get_track_url := g\<rparr>) self item_id q =
         get_downloadable lib env self item_id q) \<and>
      (get_track_url env token format_str = Inl WrongLicense \<longrightarrow>
         get_downloadable lib env self item_id q = Inl (NonStreamable wrong_license_message)) \<and>
      (get_track_url env token format_str = Inl WrongGeolocation \<longrightarrow>
         get_downloadable lib env self item_id q =
           Inl (NonStreamable wrong_geolocation_message)) \<and>
      (\<forall>url sess.
         get_track_url env token format_str = Inr (Some url) \<and> session self = Some sess \<longrightarrow>
         get_downloadable lib env self item_id q =
           Inr (DeezerDownloadable sess
                  \<lparr>dl_quality = q, dl_id = item_id, dl_fallback_id = fallback_id,
                   dl_quality_to_size = sizes, dl_url = url\<rparr>))) \<and>
   (\<forall>sess info.
      get_downloadable lib env self item_id q = Inr (DeezerDownloadable sess info) \<longrightarrow>
      dl_quality info = q \<and> - 3 \<le> q \<and> q < 3 \<and>
      (\<exists>code format_str. py_index quality_map q = Inr (code, format_str)))"
proof (intro conjI allI impI)
  fix track_info fallback_id format_str sizes token
  assume req: "dl_request env item_id q = Inr (track_info, fallback_id, format_str, sizes, token)"
  then obtain code where idx: "py_index quality_map q = Inr (code, format_str)"
    by (auto simp: dl_request_def and_then_def split: sum.splits prod.splits)
  then show "\<exists>code. py_index quality_map q = Inr (code, format_str)"
    by blast
  from idx show "q = 0 \<Longrightarrow> format_str = ''MP3_128''"
    by (simp add: py_index_def quality_map_def)
  from idx show "q = 1 \<Longrightarrow> format_str = ''MP3_320''"
    by (simp add: py_index_def quality_map_def)
  from idx show "q = 2 \<Longrightarrow> format_str = ''FLAC''"
    by (simp add: py_index_def quality_map_def)
  from req show "get_track_url env token format_str = Inl WrongLicense \<Longrightarrow>
      get_downloadable lib env self item_id q = Inl (NonStreamable wrong_license_message)"
    by (simp add: get_downloadable_def and_then_def fetch_url_def)
  from req show "get_track_url env token format_str = Inl WrongGeolocation \<Longrightarrow>
      get_downloadable lib env self item_id q = Inl (NonStreamable wrong_geolocation_message)"
    by (simp add: get_downloadable_def and_then_def fetch_url_def)
  {
    fix g
    assume g: "g token format_str = get_track_url env token format_str"
    have "dl_request (env\<lparr>get_track_url := g\<rparr>) item_id q = dl_request env item_id q"
      by (simp add: dl_request_def)
    with req g
    show "get_downloadable lib (env\<lparr>get_track_url := g\<rparr>) self item_id q =
        get_downloadable lib env self item_id q"
      by (simp add: get_downloadable_def and_then_def fetch_url_def)
  }
  {
    fix url sess
    assume "get_track_url env token format_str = Inr (Some url) \<and> session self = Some sess"
    with req
    show "get_downloadable lib env self item_id q =
        Inr (DeezerDownloadable sess
               \<lparr>dl_quality = q, dl_id = item_id, dl_fallback_id = fallback_id,
                dl_quality_to_size = sizes, dl_url = url\<rparr>)"
      by (simp add: get_downloadable_def and_then_def fetch_url_def)
  }
next
  fix sess info
  assume ok: "get_downloadable lib env self item_id q = Inr (DeezerDownloadable sess info)"
  then obtain track_info fallback_id format_str sizes token where
    req: "dl_request env item_id q = Inr (track_info, fallback_id, format_str, sizes, token)"
    by (auto simp: get_downloadable_def and_then_def split: sum.splits)
  from req obtain code where idx: "py_index quality_map q = Inr (code, format_str)"
    by (auto simp: dl_request_def and_then_def split: sum.splits prod.splits)
  from ok req show "dl_quality info = q"
    by (auto simp: get_downloadable_def and_then_def split: sum.splits option.splits)
  from idx show "- 3 \<le> q" and "q < 3"
    using quality_map_index by blast+
  from idx show "\<exists>code format_str. py_index quality_map q = Inr (code, format_str)"
    by blast
qed

theorem C1_requested_tier_or_nonstreamable_witness:
  "get_downloadable vector_lib base_env some_client ''3135556'' 2 =
     Inl (NonStreamable wrong_license_message) \<and>
   get_downloadable vector_lib base_env some_client ''3135556'' 1 =
     Inr (DeezerDownloadable 7
            \<lparr>dl_quality = 1, dl_id = ''3135556'', dl_fallback_id = JNone,
             dl_quality_to_size = [JStr ''3262080'', JStr ''8155200'', JStr ''25492683''],
             dl_url = ''https://media.example/MP3_320''\<rparr>) \<and>
   get_downloadable vector_lib
     (base_env\<lparr>get_track_url := (\<lambda>token format_str. Inl WrongLicense)\<rparr>)
     some_client ''3135556'' 2 =
     get_downloadable vector_lib base_env some_client ''3135556'' 2 \<and>
   (\<exists>code. py_index quality_map 2 = Inr (code, ''FLAC''))"
proof -
  note c2 = C1_requested_tier_or_nonstreamable
              [of base_env "''3135556''" 2 vector_lib some_client]
  note c1 = C1_requested_tier_or_nonstreamable
              [of base_env "''3135556''" 1 vector_lib some_client]
  have refused: "get_track_url base_env (JStr ''token-3135556'') ''FLAC'' = Inl WrongLicense"
    by (simp add: base_env_def)
  have mp3: "get_track_url base_env (JStr ''token-3135556'') ''MP3_320'' =
      Inr (Some ''https://media.example/MP3_320'')"
    by (simp add: base_env_def)
  have sess: "session some_client = Some 7"
    by (simp add: some_client_def)
  have allg: "\<forall>g. g (JStr ''token-3135556'') ''FLAC'' =
          get_track_url base_env (JStr ''token-3135556'') ''FLAC'' \<longrightarrow>
      get_downloadable vector_lib (base_env\<lparr>get_track_url := g\<rparr>) some_client ''3135556'' 2 =
      get_downloadable vector_lib base_env some_client ''3135556'' 2"
    using c2 dl_request_base by simp
  have a: "get_downloadable vector_lib base_env some_client ''3135556'' 2 =
     Inl (NonStreamable wrong_license_message)"
    using c2 dl_request_base refused by blast
  have b: "get_downloadable vector_lib base_env some_client ''3135556'' 1 =
     Inr (DeezerDownloadable 7
            \<lparr>dl_quality = 1, dl_id = ''3135556'', dl_fallback_id = JNone,
             dl_quality_to_size = [JStr ''3262080'', JStr ''8155200'', JStr ''25492683''],
             dl_url = ''https://media.example/MP3_320''\<rparr>)"
    using c1 dl_request_base_1 mp3 sess by blast
  have c: "get_downloadable vector_lib
     (base_env\<lparr>get_track_url := (\<lambda>token format_str. Inl WrongLicense)\<rparr>)
     some_client ''3135556'' 2 =
     get_downloadable vector_lib base_env some_client ''3135556'' 2"
    using allg [rule_format, of "\<lambda>token format_str. Inl WrongLicense"] refused by simp
  have d: "\<exists>code. py_index quality_map 2 = Inr (code, ''FLAC'')"
    using c2 dl_request_base by blast
  from a b c d show ?thesis
    by blast
qed

text \<open>
  Claim C4, as stated: when the URL request yields no URL and the derivation fails too,
  getDownloadable raises \<open>NonStreamable\<close>. For a track whose \<open>MD5_ORIGIN\<close> is the
  empty string the URL request of \<open>empty_hash_env\<close> returns \<open>None\<close>, the derivation
  raises \<open>IndexError\<close>, and getDownloadable raises this \<open>IndexError\<close>.
\<close>

theorem C4_fallback_failure_counterexample:
  "fetch_url empty_hash_env (JStr ''token-3135556'') ''FLAC'' = Inr None \<and>
   get_encrypted_file_url vector_lib some_client ''3135556'' [] ''4'' = Inl IndexError \<and>
   get_downloadable vector_lib empty_hash_env some_client ''3135556'' 2 = Inl IndexError"
proof -
  have "fetch_url empty_hash_env (JStr ''token-3135556'') ''FLAC'' = Inr None"
    by (simp add: fetch_url_def empty_hash_env_def no_url_env_def base_env_def)
  moreover from this
  have "get_downloadable vector_lib empty_hash_env some_client ''3135556'' 2 = Inl IndexError"
    unfolding get_downloadable_def dl_request_empty_hash
    by (simp add: and_then_def fallback_url_empty)
  ultimately show ?thesis
    by (simp add: derived_url_empty_hash)
qed

text \<open>
  Claim C4, amended: in getDownloadable, if the URL request yields no URL (returns
  \<open>None\<close>), the client falls back to the deterministic derivation from the id and the
  \<open>MD5_ORIGIN\<close> and \<open>MEDIA_VERSION\<close> of the track. If the derivation returns a URL,
  the Downloadable carries it; if the derivation raises, getDownloadable raises the same
  exception, which is not turned into \<open>NonStreamable\<close>. A Downloadable is never
  returned without a URL.
\<close>

theorem C4_fallback_to_derivation:
  "(\<forall>track_info fallback_id format_str sizes token.
      dl_request env item_id q = Inr (track_info, fallback_id, format_str, sizes, token) \<and>
      get_track_url env token format_str = Inr None \<longrightarrow>
      (\<forall>track_hash media_version.
         getitem track_info ''MD5_ORIGIN'' = Inr (JStr track_hash) \<and>
         getitem track_info ''MEDIA_VERSION'' = Inr media_version \<longrightarrow>
         fallback_url lib self item_id track_info =
           get_encrypted_file_url lib self item_id track_hash (py_str lib media_version)) \<and>
      (\<forall>e. fallback_url lib self item_id track_info = Inl e \<longrightarrow>
         get_downloadable lib env self item_id q = Inl e) \<and>
      (\<forall>url sess.
         fallback_url lib self item_id track_info = Inr url \<and> session self = Some sess \<longrightarrow>
         get_downloadable lib env self item_id q =
           Inr (DeezerDownloadable sess
                  \<lparr>dl_quality = q, dl_id = item_id, dl_fallback_id = fallback_id,
                   dl_quality_to_size = sizes, dl_url = url\<rparr>)))"
  by (simp add: get_downloadable_def and_then_def fetch_url_def fallback_url_str)

theorem C4_fallback_to_derivation_witness:
  "get_downloadable vector_lib no_url_env some_client ''3135556'' 2 =
     Inr (DeezerDownloadable 7
            \<lparr>dl_quality = 2, dl_id = ''3135556'', dl_fallback_id = JNone,
             dl_quality_to_size = [JStr ''3262080'', JStr ''8155200'', JStr ''25492683''],
             dl_url =
               ''https://e-cdns-proxy-5.dzcdn.net/mobile/1/'' @
               ''f3b99b9ff009e3cb4cc16f2ff19fccb9e2d78b48896abdd25dc5cfb6a48c559e'' @
               ''2f5a0bea21e1d6dbd9c8f34c691e12dc83cac650c014d41f69d381b0ce749ff5'' @
               ''93970efadbbfa155ea59a469ee3221e2''\<rparr>) \<and>
   get_downloadable vector_lib empty_hash_env some_client ''3135556'' 2 = Inl IndexError"
proof -
  have none: "get_track_url no_url_env (JStr ''token-3135556'') ''FLAC'' = Inr None"
    by (simp add: no_url_env_def base_env_def)
  have url: "fallback_url vector_lib some_client ''3135556'' (gw_track hash_A) =
      Inr (''https://e-cdns-proxy-5.dzcdn.net/mobile/1/'' @
           ''f3b99b9ff009e3cb4cc16f2ff19fccb9e2d78b48896abdd25dc5cfb6a48c559e'' @
           ''2f5a0bea21e1d6dbd9c8f34c691e12dc83cac650c014d41f69d381b0ce749ff5'' @
           ''93970efadbbfa155ea59a469ee3221e2'')"
    by (simp only: fallback_url_A derived_url_A)
  have sess: "session some_client = Some 7"
    by (simp add: some_client_def)
  have first: "get_downloadable vector_lib no_url_env some_client ''3135556'' 2 =
     Inr (DeezerDownloadable 7
            \<lparr>dl_quality = 2, dl_id = ''3135556'', dl_fallback_id = JNone,
             dl_quality_to_size = [JStr ''3262080'', JStr ''8155200'', JStr ''25492683''],
             dl_url =
               ''https://e-cdns-proxy-5.dzcdn.net/mobile/1/'' @
               ''f3b99b9ff009e3cb4cc16f2ff19fccb9e2d78b48896abdd25dc5cfb6a48c559e'' @
               ''2f5a0bea21e1d6dbd9c8f34c691e12dc83cac650c014d41f69d381b0ce749ff5'' @
               ''93970efadbbfa155ea59a469ee3221e2''\<rparr>)"
    using C4_fallback_to_derivation [of no_url_env "''3135556''" 2 vector_lib some_client]
      dl_request_no_url none url sess
    by blast
  have none': "get_track_url empty_hash_env (JStr ''token-3135556'') ''FLAC'' = Inr None"
    by (simp add: empty_hash_env_def no_url_env_def base_env_def)
  have second: "get_downloadable vector_lib empty_hash_env some_client ''3135556'' 2 =
      Inl IndexError"
    using C4_fallback_to_derivation [of empty_hash_env "''3135556''" 2 vector_lib some_client]
      dl_request_empty_hash none' fallback_url_empty [of vector_lib some_client]
    by blast
  from first second show ?thesis
    by (rule conjI)
qed

section \<open>Properties of the metadata requests\<close>

lemma gather2_raises:
  "(\<exists>e. r1 = Inl e) \<or> (\<exists>e. r2 = Inl e) \<Longrightarrow>
   \<exists>e. gather2 b r1 r2 = Inl e \<and> (r1 = Inl e \<or> r2 = Inl e)"
  by (cases r1; cases r2) (auto simp: gather2_def)

text \<open>
  Claim C5, as stated: getMetadata called with \<open>label\<close> does not fall into the
  unsupported-type branch. On the Deezer client it does.
\<close>

theorem C5_label_counterexample:
  "get_metadata base_env some_client ''42'' ''label'' =
     Inl (Exception ''Media type label not available on deezer'')"
  by (simp add: get_metadata_def)

text \<open>
  Claim C5, amended: for the media types track, album, playlist and artist getMetadata
  returns what the getter of the type returns, the provider-native metadata or the
  failure of the getter; for every other media type, \<open>label\<close> among them, it fails with
  the provider error \<open>Media type <type> not available on deezer\<close>. So getMetadata called
  with \<open>label\<close>, as \<open>PendingLabel.resolve\<close> does, falls into the unsupported-type
  branch, and resolving a label on the Deezer client fails with this error.
\<close>

theorem C5_get_metadata_dispatch:
  "get_metadata env self item_id ''track'' = get_track env self item_id \<and>
   get_metadata env self item_id ''album'' = get_album env self item_id \<and>
   get_metadata env self item_id ''playlist'' = get_playlist env self item_id \<and>
   get_metadata env self item_id ''artist'' = get_artist env self item_id \<and>
   (media_type \<notin> {''track'', ''album'', ''playlist'', ''artist''} \<longrightarrow>
      get_metadata env self item_id media_type =
        Inl (Exception (''Media type '' @ media_type @ '' not available on deezer''))) \<and>
   get_metadata env self item_id ''label'' =
     Inl (Exception ''Media type label not available on deezer'') \<and>
   snd (resolve from_resp
          \<lparr>label_id = item_id, label_client = deezer_client env self,
           label_config = cfg, label_db = db\<rparr>) =
     Inl (Exception ''Media type label not available on deezer'')"
  by (simp add: get_metadata_def resolve_def await_get_metadata_def deezer_client_def
      and_then_def)

theorem C5_get_metadata_dispatch_witness:
  "get_metadata base_env some_client ''42'' ''video'' =
     Inl (Exception ''Media type video not available on deezer'') \<and>
   snd (resolve example_from_resp
          \<lparr>label_id = ''42'', label_client = deezer_client base_env some_client,
           label_config = (), label_db = []\<rparr>) =
     Inl (Exception ''Media type label not available on deezer'')"
proof -
  have "''video'' \<notin> {''track'', ''album'', ''playlist'', ''artist''}"
    by simp
  with C5_get_metadata_dispatch
         [of base_env some_client "''42''" "''video''" example_from_resp "()" "[]"]
  show ?thesis
    by simp
qed

text \<open>
  Claim C10: \<open>get_track\<close> degrades gracefully. Once the track itself has been fetched
  and names its album, a failure of either of the two album requests that are awaited
  together makes \<open>get_track\<close> return the track metadata as fetched, without an
  exception. \<open>get_album\<close> has no handler: when either of its two requests raises,
  \<open>get_album\<close> raises, and the exception is one that a request raised.
\<close>

theorem C10_partial_failure:
  "(\<forall>item album album_id.
      api_get_track env (JStr item_id) = Inr item \<and>
      getitem item ''album'' = Inr album \<and> getitem album ''id'' = Inr album_id \<and>
      ((\<exists>e. api_get_album env album_id = Inl e) \<or>
       (\<exists>e. api_get_album_tracks env album_id = Inl e)) \<longrightarrow>
      get_track env self item_id = Inr item) \<and>
   ((\<exists>e. api_get_album env (JStr item_id) = Inl e) \<or>
    (\<exists>e. api_get_album_tracks env (JStr item_id) = Inl e) \<longrightarrow>
    (\<exists>e. get_album env self item_id = Inl e \<and>
         (api_get_album env (JStr item_id) = Inl e \<or>
          api_get_album_tracks env (JStr item_id) = Inl e)))"
proof (intro conjI allI impI)
  fix item album album_id
  assume h: "api_get_track env (JStr item_id) = Inr item \<and>
      getitem item ''album'' = Inr album \<and> getitem album ''id'' = Inr album_id \<and>
      ((\<exists>e. api_get_album env album_id = Inl e) \<or>
       (\<exists>e. api_get_album_tracks env album_id = Inl e))"
  then obtain e where
    "gather2 (first_raises_first env) (api_get_album env album_id)
       (api_get_album_tracks env album_id) = Inl e"
    using gather2_raises by blast
  with h show "get_track env self item_id = Inr item"
    by (simp add: get_track_def and_then_def)
next
  assume "(\<exists>e. api_get_album env (JStr item_id) = Inl e) \<or>
    (\<exists>e. api_get_album_tracks env (JStr item_id) = Inl e)"
  then obtain e where
    e: "gather2 (first_raises_first env) (api_get_album env (JStr item_id))
          (api_get_album_tracks env (JStr item_id)) = Inl e"
    and src: "api_get_album env (JStr item_id) = Inl e \<or>
          api_get_album_tracks env (JStr item_id) = Inl e"
    using gather2_raises by blast
  from e have "get_album env self item_id = Inl e"
    by (simp add: get_album_def and_then_def)
  with src show "\<exists>e. get_album env self item_id = Inl e \<and>
         (api_get_album env (JStr item_id) = Inl e \<or>
          api_get_album_tracks env (JStr item_id) = Inl e)"
    by blast
qed

theorem C10_partial_failure_witness:
  "get_track failing_album_env some_client ''3135556'' = Inr track_item \<and>
   get_album failing_album_env some_client ''302127'' = Inl (LibraryError ''timed out'')"
proof -
  have t: "api_get_track failing_album_env (JStr ''3135556'') = Inr track_item"
    by (simp add: failing_album_env_def base_env_def)
  have a: "getitem track_item ''album'' = Inr (JDict [(''id'', JInt 302127)])"
    by (simp add: track_item_def getitem_def)
  have i: "getitem (JDict [(''id'', JInt 302127)]) ''id'' = Inr (JInt 302127)"
    by (simp add: getitem_def)
  have f: "api_get_album_tracks failing_album_env (JInt 302127) =
      Inl (LibraryError ''timed out'')"
    by (simp add: failing_album_env_def)
  have f': "api_get_album_tracks failing_album_env (JStr ''302127'') =
      Inl (LibraryError ''timed out'')"
    by (simp add: failing_album_env_def)
  have ok: "api_get_album failing_album_env (JStr ''302127'') =
      Inr (JDict [(''id'', JInt 302127), (''title'', JStr ''Album'')])"
    by (simp add: failing_album_env_def base_env_def)
  have first: "get_track failing_album_env some_client ''3135556'' = Inr track_item"
    using C10_partial_failure [of failing_album_env "''3135556''" some_client] t a i f
    by blast
  have "\<exists>e. get_album failing_album_env some_client ''302127'' = Inl e \<and>
      (api_get_album failing_album_env (JStr ''302127'') = Inl e \<or>
       api_get_album_tracks failing_album_env (JStr ''302127'') = Inl e)"
    using C10_partial_failure [of failing_album_env "''302127''" some_client] f'
    by blast
  with ok f' have second:
    "get_album failing_album_env some_client ''302127'' = Inl (LibraryError ''timed out'')"
    by auto
  from first second show ?thesis
    by (rule conjI)
qed

section \<open>Properties of the login\<close>

text \<open>
  Claim C6, as stated: \<open>login\<close> raises \<open>MissingCredentials\<close> if and only if no
  \<open>arl\<close> is configured, raises \<open>AuthenticationError\<close> if and only if the provider
  rejects the \<open>arl\<close>, and has no other outcome but success. With an \<open>arl\<close>
  configured and a login request that raises, \<open>login\<close> raises the exception of the
  request, a fourth outcome. With no \<open>arl\<close> configured and a session factory that
  raises, \<open>login\<close> raises the exception of the factory, which runs before the
  \<open>arl\<close> is looked at, and not \<open>MissingCredentials\<close>.
\<close>

theorem C6_login_counterexample:
  "arl (config (fresh_client ''valid-arl'')) = ''valid-arl'' \<and>
   fst (login offline_env (fresh_client ''valid-arl'')) =
     Inl (LibraryError ''connection refused'') \<and>
   arl (config (fresh_client [])) = [] \<and>
   fst (login no_session_env (fresh_client [])) = Inl (LibraryError ''no running event loop'')"
  by (simp add: login_def offline_env_def no_session_env_def base_env_def fresh_client_def)

text \<open>
  Claim C6, amended: when the session factory returns and, with an \<open>arl\<close> configured,
  the provider answers the login request, \<open>login\<close> raises \<open>MissingCredentials\<close> if
  and only if no \<open>arl\<close> is configured, raises \<open>AuthenticationError\<close> if and only if
  an \<open>arl\<close> is configured and the provider rejects it, and otherwise returns with
  \<open>logged_in\<close> set to true; no other outcome is possible then. An exception raised by
  the session factory, or by the login request when an \<open>arl\<close> is configured, leaves
  \<open>login\<close> as it is, and \<open>logged_in\<close> is not set.
\<close>

theorem C6_login_outcomes:
  "(\<forall>sess accepted.
      get_session env = Inr sess \<and>
      (arl (config self) \<noteq> [] \<longrightarrow> login_via_arl env (arl (config self)) = Inr accepted) \<longrightarrow>
      (fst (login env self) = Inl MissingCredentials \<longleftrightarrow> arl (config self) = []) \<and>
      (fst (login env self) = Inl AuthenticationError \<longleftrightarrow>
         arl (config self) \<noteq> [] \<and> login_via_arl env (arl (config self)) = Inr False) \<and>
      (fst (login env self) = Inr () \<longleftrightarrow>
         arl (config self) \<noteq> [] \<and> login_via_arl env (arl (config self)) = Inr True) \<and>
      (fst (login env self) = Inr () \<longrightarrow> logged_in (snd (login env self))) \<and>
      (fst (login env self) = Inl MissingCredentials \<or>
       fst (login env self) = Inl AuthenticationError \<or>
       fst (login env self) = Inr ())) \<and>
   (\<forall>e. get_session env = Inl e \<longrightarrow>
      fst (login env self) = Inl e \<and> snd (login env self) = self) \<and>
   (\<forall>sess e.
      get_session env = Inr sess \<and> arl (config self) \<noteq> [] \<and>
      login_via_arl env (arl (config self)) = Inl e \<longrightarrow>
      fst (login env self) = Inl e \<and>
      logged_in (snd (login env self)) = logged_in self)"
proof (intro conjI allI impI)
  fix e
  assume "get_session env = Inl e"
  then show "fst (login env self) = Inl e" and "snd (login env self) = self"
    by (simp_all add: login_def)
next
  fix sess e
  assume "get_session env = Inr sess \<and> arl (config self) \<noteq> [] \<and>
      login_via_arl env (arl (config self)) = Inl e"
  then show "fst (login env self) = Inl e"
    and "logged_in (snd (login env self)) = logged_in self"
    by (simp_all add: login_def)
next
  fix sess accepted
  assume h: "get_session env = Inr sess \<and>
      (arl (config self) \<noteq> [] \<longrightarrow> login_via_arl env (arl (config self)) = Inr accepted)"
  have all: "(fst (login env self) = Inl MissingCredentials \<longleftrightarrow> arl (config self) = []) \<and>
      (fst (login env self) = Inl AuthenticationError \<longleftrightarrow>
         arl (config self) \<noteq> [] \<and> login_via_arl env (arl (config self)) = Inr False) \<and>
      (fst (login env self) = Inr () \<longleftrightarrow>
         arl (config self) \<noteq> [] \<and> login_via_arl env (arl (config self)) = Inr True) \<and>
      (fst (login env self) = Inr () \<longrightarrow> logged_in (snd (login env self))) \<and>
      (fst (login env self) = Inl MissingCredentials \<or>
       fst (login env self) = Inl AuthenticationError \<or>
       fst (login env self) = Inr ())"
  proof (cases "arl (config self) = []")
    case True
    with h show ?thesis
      by (simp add: login_def)
  next
    case False
    with h have "login_via_arl env (arl (config self)) = Inr accepted"
      by simp
    with False h show ?thesis
      by (cases accepted) (simp_all add: login_def)
  qed
  from all show "fst (login env self) = Inl MissingCredentials \<longleftrightarrow> arl (config self) = []"
    by blast
  from all show "fst (login env self) = Inl AuthenticationError \<longleftrightarrow>
      arl (config self) \<noteq> [] \<and> login_via_arl env (arl (config self)) = Inr False"
    by blast
  from all show "fst (login env self) = Inr () \<longleftrightarrow>
      arl (config self) \<noteq> [] \<and> login_via_arl env (arl (config self)) = Inr True"
    by blast
  from all show "fst (login env self) = Inr () \<Longrightarrow> logged_in (snd (login env self))"
    by blast
  from all show "fst (login env self) = Inl MissingCredentials \<or>
      fst (login env self) = Inl AuthenticationError \<or> fst (login env self) = Inr ()"
    by blast
qed

theorem C6_login_outcomes_witness:
  "fst (login base_env (fresh_client [])) = Inl MissingCredentials \<and>
   fst (login base_env (fresh_client ''expired-arl'')) = Inl AuthenticationError \<and>
   fst (login base_env (fresh_client ''valid-arl'')) = Inr () \<and>
   logged_in (snd (login base_env (fresh_client ''valid-arl''))) \<and>
   fst (login no_session_env (fresh_client [])) = Inl (LibraryError ''no running event loop'') \<and>
   fst (login offline_env (fresh_client ''valid-arl'')) =
     Inl (LibraryError ''connection refused'')"
proof -
  have s: "get_session base_env = Inr 7"
    by (simp add: base_env_def)
  have none: "arl (config (fresh_client [])) = []"
    by (simp add: fresh_client_def)
  have bad: "arl (config (fresh_client ''expired-arl'')) = ''expired-arl''"
    by (simp add: fresh_client_def)
  have good: "arl (config (fresh_client ''valid-arl'')) = ''valid-arl''"
    by (simp add: fresh_client_def)
  have rejected: "login_via_arl base_env ''expired-arl'' = Inr False"
    by (simp add: base_env_def)
  have accepted: "login_via_arl base_env ''valid-arl'' = Inr True"
    by (simp add: base_env_def)
  have s': "get_session offline_env = Inr 7"
    by (simp add: offline_env_def base_env_def)
  have refused: "login_via_arl offline_env ''valid-arl'' = Inl (LibraryError ''connection refused'')"
    by (simp add: offline_env_def)
  have nosess: "get_session no_session_env = Inl (LibraryError ''no running event loop'')"
    by (simp add: no_session_env_def)
  have "fst (login base_env (fresh_client [])) = Inl MissingCredentials"
    using C6_login_outcomes
            [of base_env "fresh_client []", THEN conjunct1, rule_format, of 7 True]
      s none
    by simp
  moreover have "fst (login base_env (fresh_client ''expired-arl'')) = Inl AuthenticationError"
    using C6_login_outcomes
            [of base_env "fresh_client ''expired-arl''", THEN conjunct1, rule_format, of 7 False]
      s bad rejected
    by simp
  moreover have "fst (login base_env (fresh_client ''valid-arl'')) = Inr () \<and>
      logged_in (snd (login base_env (fresh_client ''valid-arl'')))"
    using C6_login_outcomes
            [of base_env "fresh_client ''valid-arl''", THEN conjunct1, rule_format, of 7 True]
      s good accepted
    by simp
  moreover have "fst (login no_session_env (fresh_client [])) =
      Inl (LibraryError ''no running event loop'')"
    using C6_login_outcomes
            [of no_session_env "fresh_client []", THEN conjunct2, THEN conjunct1, rule_format,
             of "LibraryError ''no running event loop''"]
      nosess
    by simp
  moreover have "fst (login offline_env (fresh_client ''valid-arl'')) =
      Inl (LibraryError ''connection refused'')"
    using C6_login_outcomes
            [of offline_env "fresh_client ''valid-arl''", THEN conjunct2, THEN conjunct2,
             rule_format, of 7 "LibraryError ''connection refused''"]
      s' good refused
    by simp
  ultimately show ?thesis
    by simp
qed

section \<open>Properties of the resolution of a label\<close>




end
